theory Spec2Isabelle
  imports Main "HOL-Library.Word"
begin

section \<open>kubectl-rescale: the scale-to-zero-and-back cycle\<close>

text \<open>
  A shallow embedding of \<^verbatim>\<open>pkg/cmd\<close> of kubectl-rescale. The Kubernetes API server is
  outside the program; it is a parameter of every function below (a record of functions on an
  arbitrary world type), and every request sent to it is appended to a log, so that
  statements about which requests are issued, and in which order, can be made.

  The Go source has one copy of each helper for deployments and one for statefulsets. The
  two copies differ only in the typed client they go through and in the word printed, so each
  pair is one function here that takes the kind; the source's names are instances of it.
\<close>

subsection \<open>Data\<close>

type_synonym int32 = "32 word"

datatype kind = Deployment | StatefulSet

text \<open>\<^verbatim>\<open>autoscalingv1.Scale\<close>: the two fields the program reads or writes.\<close>

record scale =
  Spec_Replicas :: int32
  Status_Replicas :: int32

text \<open>
  The zero value of \<^verbatim>\<open>autoscalingv1.Scale\<close>. The typed client of client-go allocates its
  result before it sends the request, so a \<^verbatim>\<open>GetScale\<close> that fails returns this object
  together with the error, not a nil pointer.
\<close>

definition empty_scale :: scale where
  "empty_scale = \<lparr>Spec_Replicas = 0, Status_Replicas = 0\<rparr>"

text \<open>
  \<^verbatim>\<open>v1.Deployment\<close> / \<^verbatim>\<open>v1.StatefulSet\<close>: the name, the desired count
  \<^verbatim>\<open>Spec.Replicas\<close> (a pointer in Go) and the observed count \<^verbatim>\<open>Status.Replicas\<close>.
\<close>

record workload =
  Obj_Name :: string
  Obj_Spec_Replicas :: "int32 option"
  Obj_Status_Replicas :: int32

datatype status_reason = StatusReasonNotFound | StatusReasonOther string

text \<open>
  Error values. \<open>StatusError\<close> is \<^verbatim>\<open>*errors.StatusError\<close> with its reason and message;
  \<open>OtherError\<close> is any other error handed back by a library (transport, flags, kubeconfig).
  The remaining constructors are the errors the program builds itself, with the arguments of
  their format strings:
  \<^item> \<open>ErrNoContext\<close>: \<^verbatim>\<open>errNoContext\<close>;
  \<^item> \<open>ErrInvalidMaxWait\<close>: "invalid max number of waiting seconds provided";
  \<^item> \<open>ErrTargetRequired\<close>: "either a deployment or a statefulset must be provided";
  \<^item> \<open>ErrCannotBeFound name\<close>: "deployment/statefulset %s cannot be found";
  \<^item> \<open>ErrUnknownTargetKind kind\<close>: "unknown target kind %s";
  \<^item> \<open>ErrNotReached k name ns replicas tries\<close>:
    "deployment %s in %s has not reached %d replicas after %d tries" (or "statefulset ...").
\<close>

datatype error =
    StatusError status_reason string
  | OtherError string
  | ErrNoContext
  | ErrInvalidMaxWait
  | ErrTargetRequired
  | ErrCannotBeFound string
  | ErrUnknownTargetKind string
  | ErrNotReached kind string string int32 int

text \<open>
  A Go panic: \<^verbatim>\<open>panic(err.Error())\<close>, or the runtime's nil pointer dereference.
\<close>

datatype panic = PanicMsg error | NilPointerDereference

text \<open>
  The outcome of a Go function that returns \<^verbatim>\<open>(T, error)\<close> or \<^verbatim>\<open>error\<close>:
  it returns with a nil error, returns an error, or panics.
\<close>

datatype 'a res = Ok 'a | Err error | Panic panic

text \<open>\<^verbatim>\<open>errors.IsNotFound\<close> and the type assertion \<^verbatim>\<open>err.(*errors.StatusError)\<close>.\<close>

fun IsNotFound :: "error \<Rightarrow> bool" where
  "IsNotFound (StatusError r m) = (r = StatusReasonNotFound)"
| "IsNotFound _ = False"

fun asStatusError :: "error \<Rightarrow> string option" where
  "asStatusError (StatusError r m) = Some m"
| "asStatusError _ = None"

subsection \<open>The API server and the state threaded through the program\<close>

record rest_config =
  Host :: string

text \<open>
  The typed clients. Each request takes the world and returns Go's pair of a pointer (\<open>None\<close>
  is nil) and an error (\<open>None\<close> is nil), and the world after the request.
  \<open>api_Sleep\<close> is what one second of \<^verbatim>\<open>time.Sleep\<close> does to the world.
\<close>

record 'w api =
  api_NewForConfig :: "rest_config \<Rightarrow> error option"
  api_Get :: "kind \<Rightarrow> string \<Rightarrow> string \<Rightarrow> 'w \<Rightarrow> (workload option \<times> error option) \<times> 'w"
  api_GetScale :: "kind \<Rightarrow> string \<Rightarrow> string \<Rightarrow> 'w \<Rightarrow> (scale option \<times> error option) \<times> 'w"
  api_UpdateScale :: "kind \<Rightarrow> string \<Rightarrow> string \<Rightarrow> scale \<Rightarrow> 'w \<Rightarrow> (scale option \<times> error option) \<times> 'w"
  api_Sleep :: "'w \<Rightarrow> 'w"

text \<open>
  A logged request: kind, namespace, name; \<open>GetScaleCall\<close> also keeps the pointer that came
  back, \<open>UpdateScaleCall\<close> the scale object that was sent.
\<close>

datatype call =
    GetCall kind string string
  | GetScaleCall kind string string "scale option"
  | UpdateScaleCall kind string string scale

text \<open>
  Lines written to standard output, with the arguments of their format strings (kind, name,
  namespace, count):
  \<^item> \<open>HasReplicas\<close>: "Deployment %s in %s has %d replicas. Scaling to 0...";
  \<^item> \<open>NowZero\<close>: "Deployment %s in %s now has 0 replicas. Scaling back to %d...";
  \<^item> \<open>ScaledBack\<close>: "Deployment %s in %s has now been scaled back to %d";
  \<^item> \<open>ErrorGetting\<close>: "Error getting deployment %s in %s: %v";
  \<^item> \<open>ErrorLine\<close>: \<^verbatim>\<open>fmt.Println(notFoundError.Error())\<close>.
\<close>

datatype line =
    HasReplicas kind string string int32
  | NowZero kind string string int32
  | ScaledBack kind string string int32
  | ErrorGetting kind string string string
  | ErrorLine error

record 'w state =
  world :: 'w
  calls :: "call list"
  out :: "line list"

definition printf :: "line \<Rightarrow> 'w state \<Rightarrow> 'w state" where
  "printf l st = st\<lparr>out := out st @ [l]\<rparr>"

definition do_Get ::
  "'w api \<Rightarrow> kind \<Rightarrow> string \<Rightarrow> string \<Rightarrow> 'w state \<Rightarrow> (workload option \<times> error option) \<times> 'w state" where
  "do_Get a k namespace targetName st =
     (case api_Get a k namespace targetName (world st) of
        (r, w') \<Rightarrow> (r, st\<lparr>world := w', calls := calls st @ [GetCall k namespace targetName]\<rparr>))"

definition do_GetScale ::
  "'w api \<Rightarrow> kind \<Rightarrow> string \<Rightarrow> string \<Rightarrow> 'w state \<Rightarrow> (scale option \<times> error option) \<times> 'w state" where
  "do_GetScale a k namespace targetName st =
     (case api_GetScale a k namespace targetName (world st) of
        (r, w') \<Rightarrow>
          (r, st\<lparr>world := w', calls := calls st @ [GetScaleCall k namespace targetName (fst r)]\<rparr>))"

definition do_UpdateScale ::
  "'w api \<Rightarrow> kind \<Rightarrow> string \<Rightarrow> string \<Rightarrow> scale \<Rightarrow> 'w state \<Rightarrow> (scale option \<times> error option) \<times> 'w state" where
  "do_UpdateScale a k namespace targetName s st =
     (case api_UpdateScale a k namespace targetName s (world st) of
        (r, w') \<Rightarrow>
          (r, st\<lparr>world := w', calls := calls st @ [UpdateScaleCall k namespace targetName s]\<rparr>))"

definition do_Sleep :: "'w api \<Rightarrow> 'w state \<Rightarrow> 'w state" where
  "do_Sleep a st = st\<lparr>world := api_Sleep a (world st)\<rparr>"

subsection \<open>GetDeployment, GetStatefulSet\<close>

text \<open>
  The source tests \<^verbatim>\<open>errors.IsNotFound(err)\<close>, then the type assertion, then
  \<^verbatim>\<open>err != nil\<close>; the first two are false of a nil error, so the nil case is the last
  return. The result \<open>Ok p\<close> carries the pointer returned with a nil error.
\<close>

definition GetObject ::
  "'w api \<Rightarrow> kind \<Rightarrow> string \<Rightarrow> string \<Rightarrow> 'w state \<Rightarrow> workload option res \<times> 'w state" where
  "GetObject a k namespace targetName st =
     (case do_Get a k namespace targetName st of
        ((obj, err), st1) \<Rightarrow>
          (case err of
             Some e \<Rightarrow>
               if IsNotFound e then (Err e, st1)
               else (case asStatusError e of
                       Some msg \<Rightarrow> (Err e, printf (ErrorGetting k targetName namespace msg) st1)
                     | None \<Rightarrow> (Panic (PanicMsg e), st1))
           | None \<Rightarrow> (Ok obj, st1)))"

definition GetDeployment ::
  "'w api \<Rightarrow> string \<Rightarrow> string \<Rightarrow> 'w state \<Rightarrow> workload option res \<times> 'w state" where
  "GetDeployment a = GetObject a Deployment"

definition GetStatefulSet ::
  "'w api \<Rightarrow> string \<Rightarrow> string \<Rightarrow> 'w state \<Rightarrow> workload option res \<times> 'w state" where
  "GetStatefulSet a = GetObject a StatefulSet"

subsection \<open>UpdateDeploymentScale, UpdateStatefulSetScale\<close>

definition UpdateObjectScale ::
  "'w api \<Rightarrow> kind \<Rightarrow> string \<Rightarrow> string \<Rightarrow> int32 \<Rightarrow> 'w state \<Rightarrow> scale res \<times> 'w state" where
  "UpdateObjectScale a k namespace targetName replicas st =
     (case do_GetScale a k namespace targetName st of
        ((sc, err), st1) \<Rightarrow>
          (case err of
             Some e \<Rightarrow> (Err e, st1)
           | None \<Rightarrow>
               (case sc of
                  None \<Rightarrow> (Panic NilPointerDereference, st1)
                | Some s \<Rightarrow>
                    (case do_UpdateScale a k namespace targetName (s\<lparr>Spec_Replicas := replicas\<rparr>) st1 of
                       ((_, err2), st2) \<Rightarrow>
                         (case err2 of
                            Some e \<Rightarrow> (Err e, st2)
                          | None \<Rightarrow> (Ok (s\<lparr>Spec_Replicas := replicas\<rparr>), st2))))))"

definition UpdateDeploymentScale ::
  "'w api \<Rightarrow> string \<Rightarrow> string \<Rightarrow> int32 \<Rightarrow> 'w state \<Rightarrow> scale res \<times> 'w state" where
  "UpdateDeploymentScale a = UpdateObjectScale a Deployment"

definition UpdateStatefulSetScale ::
  "'w api \<Rightarrow> string \<Rightarrow> string \<Rightarrow> int32 \<Rightarrow> 'w state \<Rightarrow> scale res \<times> 'w state" where
  "UpdateStatefulSetScale a = UpdateObjectScale a StatefulSet"

subsection \<open>WaitForDeploymentReplicas, WaitForStatefulSetReplicas\<close>

text \<open>
  \<^verbatim>\<open>for i := 0; i < tries; i++\<close>: the body never reads \<open>i\<close>, so the loop is a recursion on
  the number of iterations left, \<open>nat tries\<close> at the start (none when \<open>tries \<le> 0\<close>). The error
  of \<^verbatim>\<open>GetScale\<close> is assigned to \<^verbatim>\<open>_\<close>; the pointer is dereferenced whatever it is.
\<close>

fun WaitLoop ::
  "'w api \<Rightarrow> kind \<Rightarrow> string \<Rightarrow> string \<Rightarrow> int32 \<Rightarrow> int \<Rightarrow> nat \<Rightarrow> 'w state \<Rightarrow> unit res \<times> 'w state" where
  "WaitLoop a k namespace targetName replicas tries 0 st =
     (Err (ErrNotReached k targetName namespace replicas tries), st)"
| "WaitLoop a k namespace targetName replicas tries (Suc n) st =
     (case do_GetScale a k namespace targetName st of
        ((sc, _), st1) \<Rightarrow>
          (case sc of
             None \<Rightarrow> (Panic NilPointerDereference, st1)
           | Some s \<Rightarrow>
               if Status_Replicas s = replicas then (Ok (), st1)
               else WaitLoop a k namespace targetName replicas tries n (do_Sleep a st1)))"

definition WaitForReplicas ::
  "'w api \<Rightarrow> kind \<Rightarrow> string \<Rightarrow> string \<Rightarrow> int32 \<Rightarrow> int \<Rightarrow> 'w state \<Rightarrow> unit res \<times> 'w state" where
  "WaitForReplicas a k namespace targetName replicas tries st =
     WaitLoop a k namespace targetName replicas tries (nat tries) st"


definition WaitForStatefulSetReplicas ::
  "'w api \<Rightarrow> string \<Rightarrow> string \<Rightarrow> int32 \<Rightarrow> int \<Rightarrow> 'w state \<Rightarrow> unit res \<times> 'w state" where
  "WaitForStatefulSetReplicas a = WaitForReplicas a StatefulSet"

subsection \<open>ScaleDeployment, ScaleStatefulSet\<close>

text \<open>
  After the first fetch every \<^verbatim>\<open>if err != nil { panic(err.Error()) }\<close> turns a returned
  error into a panic; a panic inside a callee goes on unwinding.
\<close>

definition ScaleObject ::
  "'w api \<Rightarrow> kind \<Rightarrow> string \<Rightarrow> string \<Rightarrow> int \<Rightarrow> 'w state \<Rightarrow> unit res \<times> 'w state" where
  "ScaleObject a k namespace targetName maxWaitSeconds st =
     (case GetObject a k namespace targetName st of
        (Err e, st1) \<Rightarrow> (Err e, st1)
      | (Panic p, st1) \<Rightarrow> (Panic p, st1)
      | (Ok None, st1) \<Rightarrow> (Panic NilPointerDereference, st1)
      | (Ok (Some d), st1) \<Rightarrow>
          (let originalReplicas = Obj_Status_Replicas d in
           case UpdateObjectScale a k namespace targetName 0
                  (printf (HasReplicas k (Obj_Name d) namespace originalReplicas) st1) of
             (Err e, st2) \<Rightarrow> (Panic (PanicMsg e), st2)
           | (Panic p, st2) \<Rightarrow> (Panic p, st2)
           | (Ok _, st2) \<Rightarrow>
               (case WaitForReplicas a k namespace targetName 0 maxWaitSeconds st2 of
                  (Err e, st3) \<Rightarrow> (Panic (PanicMsg e), st3)
                | (Panic p, st3) \<Rightarrow> (Panic p, st3)
                | (Ok _, st3) \<Rightarrow>
                    (case UpdateObjectScale a k namespace targetName originalReplicas
                            (printf (NowZero k (Obj_Name d) namespace originalReplicas) st3) of
                       (Err e, st4) \<Rightarrow> (Panic (PanicMsg e), st4)
                     | (Panic p, st4) \<Rightarrow> (Panic p, st4)
                     | (Ok _, st4) \<Rightarrow>
                         (case WaitForReplicas a k namespace targetName originalReplicas 60 st4 of
                            (Err e, st5) \<Rightarrow> (Panic (PanicMsg e), st5)
                          | (Panic p, st5) \<Rightarrow> (Panic p, st5)
                          | (Ok _, st5) \<Rightarrow>
                              (Ok (), printf (ScaledBack k (Obj_Name d) namespace originalReplicas) st5))))))"

definition ScaleDeployment ::
  "'w api \<Rightarrow> string \<Rightarrow> string \<Rightarrow> int \<Rightarrow> 'w state \<Rightarrow> unit res \<times> 'w state" where
  "ScaleDeployment a = ScaleObject a Deployment"

definition ScaleStatefulSet ::
  "'w api \<Rightarrow> string \<Rightarrow> string \<Rightarrow> int \<Rightarrow> 'w state \<Rightarrow> unit res \<times> 'w state" where
  "ScaleStatefulSet a = ScaleObject a StatefulSet"

subsection \<open>Complete\<close>

text \<open>\<^verbatim>\<open>strings.HasPrefix\<close> and \<^verbatim>\<open>strings.TrimPrefix\<close> on byte strings.\<close>

definition HasPrefix :: "string \<Rightarrow> string \<Rightarrow> bool" where
  "HasPrefix s p = (length p \<le> length s \<and> take (length p) s = p)"

definition TrimPrefix :: "string \<Rightarrow> string \<Rightarrow> string" where
  "TrimPrefix s p = (if HasPrefix s p then drop (length p) s else s)"

text \<open>\<^verbatim>\<open>api.Config\<close>: the contexts by name and the current context.\<close>

record kube_context =
  Namespace :: string

record raw_config =
  Contexts :: "string \<rightharpoonup> kube_context"
  CurrentContext :: string

text \<open>
  What \<open>Complete\<close> reads: the two kubeconfig loaders and the three flag lookups, each with
  the error it may return.
\<close>

record command_line =
  RawConfig :: "error + raw_config"
  ToRESTConfig :: "error + rest_config"
  flag_context :: "error + string"
  flag_max_wait_seconds :: "error + int"
  flag_namespace :: "error + string"

record RescaleOptions =
  userSpecifiedContext :: string
  userSpecifiedNamespace :: string
  rawConfig :: raw_config
  restConfig :: rest_config
  targetName :: string
  targetKind :: string
  maxWaitSeconds :: int

definition Complete :: "command_line \<Rightarrow> string list \<Rightarrow> RescaleOptions res" where
  "Complete cmd args =
     (case RawConfig cmd of
        Inl e \<Rightarrow> Err e
      | Inr rc \<Rightarrow>
     (case ToRESTConfig cmd of
        Inl e \<Rightarrow> Panic (PanicMsg e)
      | Inr rest \<Rightarrow>
     (case flag_context cmd of
        Inl e \<Rightarrow> Err e
      | Inr ctx \<Rightarrow>
     if (if length ctx > 0 then Contexts rc ctx = None else length (CurrentContext rc) = 0)
     then Err ErrNoContext
     else
     (case flag_max_wait_seconds cmd of
        Inl e \<Rightarrow> Err e
      | Inr w \<Rightarrow>
     if w \<le> 0 then Err ErrInvalidMaxWait
     else
     (case args of
        [arg] \<Rightarrow>
          (let (tn, tk) =
             (if HasPrefix arg ''deployment/'' then (TrimPrefix arg ''deployment/'', ''deployment'')
              else if HasPrefix arg ''deploy/'' then (TrimPrefix arg ''deploy/'', ''deployment'')
              else if HasPrefix arg ''statefulset/'' then (TrimPrefix arg ''statefulset/'', ''statefulset'')
              else if HasPrefix arg ''sts/'' then (TrimPrefix arg ''sts/'', ''statefulset'')
              else (arg, ''unknown''))
           in case flag_namespace cmd of
                Inl e \<Rightarrow> Err e
              | Inr ns \<Rightarrow>
                  Ok \<lparr>userSpecifiedContext = ctx, userSpecifiedNamespace = ns, rawConfig = rc,
                      restConfig = rest, targetName = tn, targetKind = tk, maxWaitSeconds = w\<rparr>)
      | _ \<Rightarrow> Err ErrTargetRequired)))))"

subsection \<open>Run\<close>

text \<open>
  Lines 234 to 254 of the source: the value of \<^verbatim>\<open>o.targetKind\<close> after the lookups.
\<close>

definition Run_resolve ::
  "'w api \<Rightarrow> string \<Rightarrow> string \<Rightarrow> string \<Rightarrow> 'w state \<Rightarrow> string res \<times> 'w state" where
  "Run_resolve a namespace tn tk st =
     (if tk = ''unknown'' then
        (case GetDeployment a namespace tn st of
           (Panic p, st1) \<Rightarrow> (Panic p, st1)
         | (Err e, st1) \<Rightarrow>
             if IsNotFound e then
               (case GetStatefulSet a namespace tn st1 of
                  (Panic p, st2) \<Rightarrow> (Panic p, st2)
                | (Err e2, st2) \<Rightarrow>
                    if IsNotFound e2
                    then (Err (ErrCannotBeFound tn), printf (ErrorLine (ErrCannotBeFound tn)) st2)
                    else (Err e2, st2)
                | (Ok _, st2) \<Rightarrow> (Ok ''statefulset'', st2))
             else (Err e, st1)
         | (Ok _, st1) \<Rightarrow> (Ok ''deployment'', st1))
      else (Ok tk, st))"

text \<open>Lines 256 to 272: the dispatch on \<^verbatim>\<open>o.targetKind\<close>.\<close>

definition Run_scale ::
  "'w api \<Rightarrow> string \<Rightarrow> string \<Rightarrow> string \<Rightarrow> int \<Rightarrow> 'w state \<Rightarrow> unit res \<times> 'w state" where
  "Run_scale a namespace tn tk w st =
     (if tk = ''deployment'' then ScaleDeployment a namespace tn w st
      else if tk = ''statefulset'' then ScaleStatefulSet a namespace tn w st
      else (Err (ErrUnknownTargetKind tk), printf (ErrorLine (ErrUnknownTargetKind tk)) st))"

text \<open>
  The namespace of \<open>Run\<close>: the flag when it is not empty, else the namespace of the context;
  \<^verbatim>\<open>o.rawConfig.Contexts[ctx]\<close> is a nil pointer when the map has no such context.
\<close>

definition Run_namespace :: "RescaleOptions \<Rightarrow> string option" where
  "Run_namespace opts =
     (let ctx = (if length (userSpecifiedContext opts) > 0 then userSpecifiedContext opts
                 else CurrentContext (rawConfig opts))
      in if length (userSpecifiedNamespace opts) > 0 then Some (userSpecifiedNamespace opts)
         else map_option Namespace (Contexts (rawConfig opts) ctx))"

definition Run :: "'w api \<Rightarrow> RescaleOptions \<Rightarrow> 'w state \<Rightarrow> unit res \<times> 'w state" where
  "Run a opts st =
     (case api_NewForConfig a (restConfig opts) of
        Some e \<Rightarrow> (Panic (PanicMsg e), st)
      | None \<Rightarrow>
          (case Run_namespace opts of
             None \<Rightarrow> (Panic NilPointerDereference, st)
           | Some namespace \<Rightarrow>
               (case Run_resolve a namespace (targetName opts) (targetKind opts) st of
                  (Err e, st1) \<Rightarrow> (Err e, st1)
                | (Panic p, st1) \<Rightarrow> (Panic p, st1)
                | (Ok tk, st1) \<Rightarrow>
                    Run_scale a namespace (targetName opts) tk (maxWaitSeconds opts) st1)))"

text \<open>\<^verbatim>\<open>RunE\<close> of the cobra command: \<open>Run\<close> only after \<open>Complete\<close> returned nil.\<close>

definition RunE :: "'w api \<Rightarrow> command_line \<Rightarrow> string list \<Rightarrow> 'w state \<Rightarrow> unit res \<times> 'w state" where
  "RunE a cmd args st =
     (case Complete cmd args of
        Err e \<Rightarrow> (Err e, st)
      | Panic p \<Rightarrow> (Panic p, st)
      | Ok opts \<Rightarrow> Run a opts st)"

subsection \<open>What a sequence of polls observes\<close>

text \<open>
  The pointers that \<open>m\<close> successive \<^verbatim>\<open>GetScale\<close> requests, one second of sleep after each,
  get back when the first is sent in world \<open>w\<close>.
\<close>

fun polls :: "'w api \<Rightarrow> kind \<Rightarrow> string \<Rightarrow> string \<Rightarrow> nat \<Rightarrow> 'w \<Rightarrow> scale option list" where
  "polls a k namespace tn 0 w = []"
| "polls a k namespace tn (Suc m) w =
     (case api_GetScale a k namespace tn w of
        ((sc, _), w') \<Rightarrow> sc # polls a k namespace tn m (api_Sleep a w'))"

subsection \<open>A simulated cluster\<close>

text \<open>
  A stand-in for the API server, used to run the program on concrete inputs: the workloads
  that exist, the desired count, and the observed count now and after each further second
  (the last value stays). A request for a workload that does not exist gets a not-found
  status error; \<^verbatim>\<open>GetScale\<close> returns the empty scale object with it, as client-go does.
  The pointer that \<^verbatim>\<open>Get\<close> and \<^verbatim>\<open>UpdateScale\<close> return with an error is never read by
  the program, and is nil here.
\<close>

record cluster =
  present :: "(kind \<times> string \<times> string) list"
  desired :: int32
  timeline :: "int32 list"

definition observed :: "cluster \<Rightarrow> int32" where
  "observed c = (case timeline c of [] \<Rightarrow> 0 | x # _ \<Rightarrow> x)"

definition notFound :: error where
  "notFound = StatusError StatusReasonNotFound ''not found''"

definition cluster_api :: "cluster api" where
  "cluster_api =
     \<lparr>api_NewForConfig = (\<lambda>_. None),
      api_Get = (\<lambda>k ns n c.
        if (k, ns, n) \<in> set (present c)
        then ((Some \<lparr>Obj_Name = n, Obj_Spec_Replicas = Some (desired c),
                     Obj_Status_Replicas = observed c\<rparr>, None), c)
        else ((None, Some notFound), c)),
      api_GetScale = (\<lambda>k ns n c.
        if (k, ns, n) \<in> set (present c)
        then ((Some \<lparr>Spec_Replicas = desired c, Status_Replicas = observed c\<rparr>, None), c)
        else ((Some empty_scale, Some notFound), c)),
      api_UpdateScale = (\<lambda>k ns n s c.
        if (k, ns, n) \<in> set (present c)
        then ((Some s, None), c\<lparr>desired := Spec_Replicas s\<rparr>)
        else ((None, Some notFound), c)),
      api_Sleep = (\<lambda>c. c\<lparr>timeline := (case timeline c of x # y # r \<Rightarrow> y # r | t \<Rightarrow> t)\<rparr>)\<rparr>"

definition start :: "cluster \<Rightarrow> cluster state" where
  "start c = \<lparr>world = c, calls = [], out = []\<rparr>"

subsection \<open>Reading the log\<close>

text \<open>The kind a logged request went to, and the desired counts sent by the updates, in order.\<close>

fun call_kind :: "call \<Rightarrow> kind" where
  "call_kind (GetCall k _ _) = k"
| "call_kind (GetScaleCall k _ _ _) = k"
| "call_kind (UpdateScaleCall k _ _ _) = k"

fun update_targets :: "call list \<Rightarrow> int32 list" where
  "update_targets [] = []"
| "update_targets (UpdateScaleCall _ _ _ s # cs) = Spec_Replicas s # update_targets cs"
| "update_targets (_ # cs) = update_targets cs"


subsection \<open>Inputs of the examples\<close>

text \<open>A cluster with the single deployment \<open>default/nginx\<close>.\<close>

definition nginx :: "int32 \<Rightarrow> int32 list \<Rightarrow> cluster" where
  "nginx d tline = \<lparr>present = [(Deployment, ''default'', ''nginx'')], desired = d, timeline = tline\<rparr>"

text \<open>A cluster with the single statefulset \<open>prod/mysql\<close>.\<close>

definition mysql :: "int32 \<Rightarrow> int32 list \<Rightarrow> cluster" where
  "mysql d tline = \<lparr>present = [(StatefulSet, ''prod'', ''mysql'')], desired = d, timeline = tline\<rparr>"

text \<open>
  A cluster where a deployment and a statefulset share the name \<open>default/web\<close>, and one with
  the single statefulset \<open>default/db\<close>.
\<close>

definition web :: "int32 \<Rightarrow> int32 list \<Rightarrow> cluster" where
  "web d tline =
     \<lparr>present = [(Deployment, ''default'', ''web''), (StatefulSet, ''default'', ''web'')],
      desired = d, timeline = tline\<rparr>"

definition db :: "int32 \<Rightarrow> int32 list \<Rightarrow> cluster" where
  "db d tline = \<lparr>present = [(StatefulSet, ''default'', ''db'')], desired = d, timeline = tline\<rparr>"

text \<open>A command line whose kubeconfig loads and whose flags parse, and the options it yields.\<close>

definition cmd_ok :: "int \<Rightarrow> command_line" where
  "cmd_ok w =
     \<lparr>RawConfig = Inr \<lparr>Contexts = [''kind'' \<mapsto> \<lparr>Namespace = ''default''\<rparr>],
                        CurrentContext = ''kind''\<rparr>,
      ToRESTConfig = Inr \<lparr>Host = ''localhost''\<rparr>,
      flag_context = Inr [],
      flag_max_wait_seconds = Inr w,
      flag_namespace = Inr []\<rparr>"

definition opts_ok :: "string \<Rightarrow> string \<Rightarrow> int \<Rightarrow> RescaleOptions" where
  "opts_ok tn tk w =
     \<lparr>userSpecifiedContext = [], userSpecifiedNamespace = [],
      rawConfig = \<lparr>Contexts = [''kind'' \<mapsto> \<lparr>Namespace = ''default''\<rparr>],
                   CurrentContext = ''kind''\<rparr>,
      restConfig = \<lparr>Host = ''localhost''\<rparr>, targetName = tn, targetKind = tk,
      maxWaitSeconds = w\<rparr>"

text \<open>The same command line with a kubeconfig that has no current context.\<close>

definition cmd_no_context :: "int \<Rightarrow> command_line" where
  "cmd_no_context w =
     \<lparr>RawConfig = Inr \<lparr>Contexts = Map.empty, CurrentContext = []\<rparr>,
      ToRESTConfig = Inr \<lparr>Host = ''localhost''\<rparr>,
      flag_context = Inr [],
      flag_max_wait_seconds = Inr w,
      flag_namespace = Inr []\<rparr>"

section \<open>Argument parsing and validation\<close>

lemma HasPrefix_iff: "HasPrefix s p \<longleftrightarrow> (\<exists>x. s = p @ x)"
  unfolding HasPrefix_def
  by (metis append_eq_conv_conj append_take_drop_id length_append le_add1)

lemma Complete_Ok_arg:
  assumes "Complete cmd [arg] = Ok opts"
  shows "(targetName opts, targetKind opts) =
     (if HasPrefix arg ''deployment/'' then (TrimPrefix arg ''deployment/'', ''deployment'')
      else if HasPrefix arg ''deploy/'' then (TrimPrefix arg ''deploy/'', ''deployment'')
      else if HasPrefix arg ''statefulset/'' then (TrimPrefix arg ''statefulset/'', ''statefulset'')
      else if HasPrefix arg ''sts/'' then (TrimPrefix arg ''sts/'', ''statefulset'')
      else (arg, ''unknown''))"
  using assms unfolding Complete_def
  by (auto split: sum.splits if_splits prod.splits simp: Let_def)

lemma Complete_succeeds:
  assumes "RawConfig cmd = Inr rc" and "ToRESTConfig cmd = Inr rest" and "flag_context cmd = Inr ctx"
      and "if 0 < length ctx then Contexts rc ctx \<noteq> None else length (CurrentContext rc) \<noteq> 0"
      and "flag_max_wait_seconds cmd = Inr w" and "0 < w" and "flag_namespace cmd = Inr nsf"
  shows "\<exists>opts. Complete cmd [arg] = Ok opts"
  using assms by (auto simp: Complete_def Let_def split: if_splits prod.splits)

lemma Complete_cmd_ok:
  "Complete (cmd_ok 300) [''deploy/foo''] = Ok (opts_ok ''foo'' ''deployment'' 300)"
  "Complete (cmd_ok 300) [''deployment/foo''] = Ok (opts_ok ''foo'' ''deployment'' 300)"
  "Complete (cmd_ok 300) [''sts/bar''] = Ok (opts_ok ''bar'' ''statefulset'' 300)"
  "Complete (cmd_ok 300) [''statefulset/bar''] = Ok (opts_ok ''bar'' ''statefulset'' 300)"
  "Complete (cmd_ok 300) [''nginx''] = Ok (opts_ok ''nginx'' ''unknown'' 300)"
  by (simp_all add: Complete_def cmd_ok_def opts_ok_def HasPrefix_def TrimPrefix_def)

text \<open>
  C7. When the kubeconfig loads, the REST config is built, the context resolves, the flag
  \<open>max-wait-seconds\<close> is positive and the namespace flag is read, \<open>Complete\<close> succeeds on
  every single argument. Whenever it succeeds on the argument \<open>arg\<close>: an argument
  \<open>deploy/foo\<close> or \<open>deployment/foo\<close> gives the kind "deployment" and the name \<open>foo\<close>; an
  argument \<open>sts/bar\<close> or \<open>statefulset/bar\<close> gives the kind "statefulset" and the name \<open>bar\<close>;
  an argument with none of the four prefixes gives the kind "unknown" and the whole argument
  as the name.
\<close>

theorem Complete_target:
  "((\<exists>rc rest ctx w nsf.
       RawConfig cmd = Inr rc \<and> ToRESTConfig cmd = Inr rest \<and> flag_context cmd = Inr ctx
       \<and> (if 0 < length ctx then Contexts rc ctx \<noteq> None else length (CurrentContext rc) \<noteq> 0)
       \<and> flag_max_wait_seconds cmd = Inr w \<and> 0 < w \<and> flag_namespace cmd = Inr nsf)
      \<longrightarrow> (\<exists>opts. Complete cmd [arg] = Ok opts))
   \<and> (\<forall>opts. Complete cmd [arg] = Ok opts \<longrightarrow>
         (arg = ''deploy/'' @ foo \<or> arg = ''deployment/'' @ foo \<longrightarrow>
            targetKind opts = ''deployment'' \<and> targetName opts = foo)
       \<and> (arg = ''sts/'' @ bar \<or> arg = ''statefulset/'' @ bar \<longrightarrow>
            targetKind opts = ''statefulset'' \<and> targetName opts = bar)
       \<and> ((\<forall>x. arg \<noteq> ''deploy/'' @ x) \<and> (\<forall>x. arg \<noteq> ''deployment/'' @ x) \<and>
          (\<forall>x. arg \<noteq> ''sts/'' @ x) \<and> (\<forall>x. arg \<noteq> ''statefulset/'' @ x) \<longrightarrow>
            targetKind opts = ''unknown'' \<and> targetName opts = arg))"
proof -
  have ok: "\<exists>opts. Complete cmd [arg] = Ok opts"
    if "\<exists>rc rest ctx w nsf.
       RawConfig cmd = Inr rc \<and> ToRESTConfig cmd = Inr rest \<and> flag_context cmd = Inr ctx
       \<and> (if 0 < length ctx then Contexts rc ctx \<noteq> None else length (CurrentContext rc) \<noteq> 0)
       \<and> flag_max_wait_seconds cmd = Inr w \<and> 0 < w \<and> flag_namespace cmd = Inr nsf"
    using that Complete_succeeds by blast
  have res: "(arg = ''deploy/'' @ foo \<or> arg = ''deployment/'' @ foo \<longrightarrow>
            targetKind opts = ''deployment'' \<and> targetName opts = foo)
       \<and> (arg = ''sts/'' @ bar \<or> arg = ''statefulset/'' @ bar \<longrightarrow>
            targetKind opts = ''statefulset'' \<and> targetName opts = bar)
       \<and> ((\<forall>x. arg \<noteq> ''deploy/'' @ x) \<and> (\<forall>x. arg \<noteq> ''deployment/'' @ x) \<and>
          (\<forall>x. arg \<noteq> ''sts/'' @ x) \<and> (\<forall>x. arg \<noteq> ''statefulset/'' @ x) \<longrightarrow>
            targetKind opts = ''unknown'' \<and> targetName opts = arg)"
    if c: "Complete cmd [arg] = Ok opts" for opts
  proof -
    note L = Complete_Ok_arg[OF c]
    have d1: "arg = ''deploy/'' @ foo \<Longrightarrow> targetKind opts = ''deployment'' \<and> targetName opts = foo"
      using L by (simp add: HasPrefix_def TrimPrefix_def)
    have d2: "arg = ''deployment/'' @ foo \<Longrightarrow> targetKind opts = ''deployment'' \<and> targetName opts = foo"
      using L by (simp add: HasPrefix_def TrimPrefix_def)
    have s1: "arg = ''sts/'' @ bar \<Longrightarrow> targetKind opts = ''statefulset'' \<and> targetName opts = bar"
      using L by (simp add: HasPrefix_def TrimPrefix_def)
    have s2: "arg = ''statefulset/'' @ bar \<Longrightarrow> targetKind opts = ''statefulset'' \<and> targetName opts = bar"
      using L by (simp add: HasPrefix_def TrimPrefix_def)
    have u: "(\<forall>x. arg \<noteq> ''deploy/'' @ x) \<Longrightarrow> (\<forall>x. arg \<noteq> ''deployment/'' @ x) \<Longrightarrow>
            (\<forall>x. arg \<noteq> ''sts/'' @ x) \<Longrightarrow> (\<forall>x. arg \<noteq> ''statefulset/'' @ x) \<Longrightarrow>
              targetKind opts = ''unknown'' \<and> targetName opts = arg"
      using L by (simp add: HasPrefix_iff)
    show ?thesis using d1 d2 s1 s2 u by blast
  qed
  show ?thesis using ok res by blast
qed

theorem Complete_target_witness:
  "RawConfig (cmd_ok 300)
     = Inr \<lparr>Contexts = [''kind'' \<mapsto> \<lparr>Namespace = ''default''\<rparr>], CurrentContext = ''kind''\<rparr>
   \<and> ToRESTConfig (cmd_ok 300) = Inr \<lparr>Host = ''localhost''\<rparr>
   \<and> flag_context (cmd_ok 300) = Inr []
   \<and> flag_max_wait_seconds (cmd_ok 300) = Inr 300
   \<and> flag_namespace (cmd_ok 300) = Inr []
   \<and> Complete (cmd_ok 300) [''deploy/foo''] = Ok (opts_ok ''foo'' ''deployment'' 300)
   \<and> Complete (cmd_ok 300) [''deployment/foo''] = Ok (opts_ok ''foo'' ''deployment'' 300)
   \<and> targetKind (opts_ok ''foo'' ''deployment'' 300) = ''deployment''
   \<and> targetName (opts_ok ''foo'' ''deployment'' 300) = ''foo''
   \<and> Complete (cmd_ok 300) [''sts/bar''] = Ok (opts_ok ''bar'' ''statefulset'' 300)
   \<and> Complete (cmd_ok 300) [''statefulset/bar''] = Ok (opts_ok ''bar'' ''statefulset'' 300)
   \<and> targetKind (opts_ok ''bar'' ''statefulset'' 300) = ''statefulset''
   \<and> targetName (opts_ok ''bar'' ''statefulset'' 300) = ''bar''
   \<and> Complete (cmd_ok 300) [''nginx''] = Ok (opts_ok ''nginx'' ''unknown'' 300)
   \<and> (\<forall>x. ''nginx'' \<noteq> ''deploy/'' @ x) \<and> (\<forall>x. ''nginx'' \<noteq> ''deployment/'' @ x)
   \<and> (\<forall>x. ''nginx'' \<noteq> ''sts/'' @ x) \<and> (\<forall>x. ''nginx'' \<noteq> ''statefulset/'' @ x)
   \<and> targetKind (opts_ok ''nginx'' ''unknown'' 300) = ''unknown''
   \<and> targetName (opts_ok ''nginx'' ''unknown'' 300) = ''nginx''"
proof -
  have c: "RawConfig (cmd_ok 300)
     = Inr \<lparr>Contexts = [''kind'' \<mapsto> \<lparr>Namespace = ''default''\<rparr>], CurrentContext = ''kind''\<rparr>"
    "ToRESTConfig (cmd_ok 300) = Inr \<lparr>Host = ''localhost''\<rparr>"
    "flag_context (cmd_ok 300) = Inr []"
    "flag_max_wait_seconds (cmd_ok 300) = Inr 300"
    "flag_namespace (cmd_ok 300) = Inr []"
    by (simp_all add: cmd_ok_def)
  have pre: "\<exists>rc rest ctx w nsf.
       RawConfig (cmd_ok 300) = Inr rc \<and> ToRESTConfig (cmd_ok 300) = Inr rest
       \<and> flag_context (cmd_ok 300) = Inr ctx
       \<and> (if 0 < length ctx then Contexts rc ctx \<noteq> None else length (CurrentContext rc) \<noteq> 0)
       \<and> flag_max_wait_seconds (cmd_ok 300) = Inr w \<and> 0 < w \<and> flag_namespace (cmd_ok 300) = Inr nsf"
    by (simp add: cmd_ok_def)
  note T = Complete_target[of "cmd_ok 300", THEN conjunct2, rule_format]
  note S = Complete_target[of "cmd_ok 300", THEN conjunct1, rule_format, OF pre]
  show ?thesis
    using c Complete_cmd_ok
      T[OF Complete_cmd_ok(1), of "''foo''" "''bar''"] T[OF Complete_cmd_ok(2), of "''foo''" "''bar''"]
      T[OF Complete_cmd_ok(3), of "''foo''" "''bar''"] T[OF Complete_cmd_ok(4), of "''foo''" "''bar''"]
      T[OF Complete_cmd_ok(5), of "''foo''" "''bar''"]
      S[of "''deployment/foo''"]
    by simp
qed

lemma Complete_nonpositive:
  assumes "flag_max_wait_seconds cmd = Inr w" "w \<le> 0"
  shows "\<forall>opts. Complete cmd args \<noteq> Ok opts"
  using assms unfolding Complete_def
  by (auto split: sum.splits list.splits)

text \<open>
  C4 (as amended). When the flag \<open>max-wait-seconds\<close> is \<open>w \<le> 0\<close>, the command does not
  succeed and leaves the state as it was: no request is sent to the API server (the log of
  requests is unchanged), nothing is printed. \<open>Complete\<close> loads the kubeconfig, builds the
  REST config, reads the context flag and resolves the context before it looks at
  \<open>max-wait-seconds\<close>: the command ends with the error of the first of those steps that fails
  (a panic for the REST config, the error "no or invalid context is set" for the context),
  and with the validation error "invalid max number of waiting seconds provided" when all of
  them pass.
\<close>

theorem RunE_nonpositive_wait:
  assumes "flag_max_wait_seconds cmd = Inr w" and "w \<le> 0"
  shows "snd (RunE a cmd args st) = st
       \<and> fst (RunE a cmd args st) \<noteq> Ok ()
       \<and> (\<forall>rc rest ctx.
            RawConfig cmd = Inr rc \<and> ToRESTConfig cmd = Inr rest \<and> flag_context cmd = Inr ctx
            \<and> (if length ctx > 0 then Contexts rc ctx \<noteq> None else length (CurrentContext rc) \<noteq> 0)
            \<longrightarrow> fst (RunE a cmd args st) = Err ErrInvalidMaxWait)
       \<and> fst (RunE a cmd args st) =
           (case RawConfig cmd of
              Inl e \<Rightarrow> Err e
            | Inr rc \<Rightarrow>
                (case ToRESTConfig cmd of
                   Inl e \<Rightarrow> Panic (PanicMsg e)
                 | Inr rest \<Rightarrow>
                     (case flag_context cmd of
                        Inl e \<Rightarrow> Err e
                      | Inr ctx \<Rightarrow>
                          if (if length ctx > 0 then Contexts rc ctx = None
                              else length (CurrentContext rc) = 0)
                          then Err ErrNoContext else Err ErrInvalidMaxWait)))"
proof -
  have no: "\<And>opts. Complete cmd args \<noteq> Ok opts"
    using Complete_nonpositive[OF assms] by blast
  have 1: "snd (RunE a cmd args st) = st" and 2: "fst (RunE a cmd args st) \<noteq> Ok ()"
    using no by (auto simp: RunE_def split: res.splits)
  have 3: "fst (RunE a cmd args st) = Err ErrInvalidMaxWait"
    if "RawConfig cmd = Inr rc" "ToRESTConfig cmd = Inr rest" "flag_context cmd = Inr ctx"
       "if length ctx > 0 then Contexts rc ctx \<noteq> None else length (CurrentContext rc) \<noteq> 0"
    for rc rest ctx
    using that assms by (auto simp: RunE_def Complete_def split: if_splits)
  have 4: "fst (RunE a cmd args st) =
           (case RawConfig cmd of
              Inl e \<Rightarrow> Err e
            | Inr rc \<Rightarrow>
                (case ToRESTConfig cmd of
                   Inl e \<Rightarrow> Panic (PanicMsg e)
                 | Inr rest \<Rightarrow>
                     (case flag_context cmd of
                        Inl e \<Rightarrow> Err e
                      | Inr ctx \<Rightarrow>
                          if (if length ctx > 0 then Contexts rc ctx = None
                              else length (CurrentContext rc) = 0)
                          then Err ErrNoContext else Err ErrInvalidMaxWait)))"
    using assms by (auto simp: RunE_def Complete_def split: sum.splits if_splits)
  show ?thesis using 1 2 3 4 by blast
qed

theorem RunE_nonpositive_wait_witness:
  "flag_max_wait_seconds (cmd_ok 0) = Inr 0 \<and> (0::int) \<le> 0
   \<and> RunE cluster_api (cmd_ok 0) [''nginx''] (start (nginx 3 [3, 0, 3]))
     = (Err ErrInvalidMaxWait, start (nginx 3 [3, 0, 3]))"
  using RunE_nonpositive_wait[of "cmd_ok 0" 0 cluster_api "[''nginx'']" "start (nginx 3 [3, 0, 3])"]
  by (simp add: cmd_ok_def prod_eq_iff)

text \<open>
  C4 as stated fails: with \<open>max-wait-seconds\<close> 0 and a kubeconfig that has no current
  context the command is rejected with the context error, not with the validation error.
\<close>

theorem RunE_nonpositive_wait_no_context:
  "flag_max_wait_seconds (cmd_no_context 0) = Inr 0
   \<and> RunE cluster_api (cmd_no_context 0) [''nginx''] (start (nginx 3 [3, 0, 3]))
     = (Err ErrNoContext, start (nginx 3 [3, 0, 3]))
   \<and> fst (RunE cluster_api (cmd_no_context 0) [''nginx''] (start (nginx 3 [3, 0, 3])))
     \<noteq> Err ErrInvalidMaxWait"
proof -
  have 1: "flag_max_wait_seconds (cmd_no_context 0) = Inr 0"
    by (simp add: cmd_no_context_def)
  have 2: "RunE cluster_api (cmd_no_context 0) [''nginx''] (start (nginx 3 [3, 0, 3]))
     = (Err ErrNoContext, start (nginx 3 [3, 0, 3]))"
    by (simp add: RunE_def Complete_def cmd_no_context_def)
  show ?thesis using 1 2 by simp
qed

section \<open>The steps of the cycle\<close>

lemma update_targets_append [simp]:
  "update_targets (xs @ ys) = update_targets xs @ update_targets ys"
  by (induction xs rule: update_targets.induct) simp_all

lemma update_targets_polls [simp]: "update_targets (map (GetScaleCall k ns n) ps) = []"
  by (induction ps) simp_all

lemma printf_fields [simp]:
  "world (printf l st) = world st" "calls (printf l st) = calls st" "out (printf l st) = out st @ [l]"
  by (simp_all add: printf_def)

subsection \<open>The first fetch\<close>

lemma GetObject_calls [simp]:
  "calls (snd (GetObject a k ns n st)) = calls st @ [GetCall k ns n]"
  by (simp add: GetObject_def do_Get_def printf_def split: prod.splits option.splits)

lemma GetObject_Ok:
  assumes "GetObject a k ns n st = (Ok p, st1)"
  shows "api_Get a k ns n (world st) = ((p, None), world st1)
       \<and> st1 = st\<lparr>world := world st1, calls := calls st @ [GetCall k ns n]\<rparr>"
  using assms
  by (auto simp: GetObject_def do_Get_def printf_def split: prod.splits option.splits if_splits)

lemma GetObject_Err:
  assumes "GetObject a k ns n st = (Err e, st1)"
  shows "\<exists>p. api_Get a k ns n (world st) = ((p, Some e), world st1)"
  using assms
  by (auto simp: GetObject_def do_Get_def printf_def split: prod.splits option.splits if_splits)

lemma GetObject_found:
  assumes "api_Get a k ns n (world st) = ((p, None), w1)"
  shows "GetObject a k ns n st = (Ok p, st\<lparr>world := w1, calls := calls st @ [GetCall k ns n]\<rparr>)"
  using assms by (simp add: GetObject_def do_Get_def)

lemma GetObject_notfound:
  assumes "api_Get a k ns n (world st) = ((p, Some e), w1)" "IsNotFound e"
  shows "GetObject a k ns n st = (Err e, st\<lparr>world := w1, calls := calls st @ [GetCall k ns n]\<rparr>)"
  using assms by (simp add: GetObject_def do_Get_def)

lemma GetObject_not_Ok:
  assumes "GetObject a k ns n st = (r, st1)" and "api_Get a k ns n (world st) = ((p, None), w1)"
  shows "r = Ok p \<and> st1 = st\<lparr>world := w1, calls := calls st @ [GetCall k ns n]\<rparr>"
  using GetObject_found[OF assms(2)] assms(1) by simp

subsection \<open>The scale update\<close>

lemma Update_succeeds:
  assumes "api_GetScale a k ns n (world st) = ((Some s, None), w)"
      and "api_UpdateScale a k ns n (s\<lparr>Spec_Replicas := r\<rparr>) w = ((u, None), w')"
  shows "UpdateObjectScale a k ns n r st =
           (Ok (s\<lparr>Spec_Replicas := r\<rparr>),
            st\<lparr>world := w', calls := calls st @ [GetScaleCall k ns n (Some s),
                   UpdateScaleCall k ns n (s\<lparr>Spec_Replicas := r\<rparr>)]\<rparr>)"
  using assms by (simp add: UpdateObjectScale_def do_GetScale_def do_UpdateScale_def)

lemma Update_effect:
  "\<exists>cs. calls (snd (UpdateObjectScale a k ns n r st)) = calls st @ cs
      \<and> update_targets cs \<in> {[], [r]} \<and> (\<forall>c \<in> set cs. call_kind c = k)
      \<and> (update_targets cs = [] \<longrightarrow> (\<forall>x. fst (UpdateObjectScale a k ns n r st) \<noteq> Ok x))"
  by (auto simp: UpdateObjectScale_def do_GetScale_def do_UpdateScale_def
           split: prod.splits option.splits)

lemma Update_out [simp]: "out (snd (UpdateObjectScale a k ns n r st)) = out st"
  by (auto simp: UpdateObjectScale_def do_GetScale_def do_UpdateScale_def
           split: prod.splits option.splits)

subsection \<open>The polling loop\<close>

lemma WaitLoop_out [simp]: "out (snd (WaitLoop a k ns n r t m st)) = out st"
  by (induction m arbitrary: st)
     (auto simp: do_GetScale_def do_Sleep_def split: prod.splits option.splits)

lemma WaitLoop_effect:
  "\<exists>j \<le> m. calls (snd (WaitLoop a k ns n r t m st)) =
        calls st @ map (GetScaleCall k ns n) (take j (polls a k ns n m (world st)))"
proof (induction m arbitrary: st)
  case 0
  then show ?case by simp
next
  case (Suc m)
  obtain sc e w' where g: "api_GetScale a k ns n (world st) = ((sc, e), w')"
    by (metis prod.exhaust)
  show ?case
  proof (cases sc)
    case None
    with g have "calls (snd (WaitLoop a k ns n r t (Suc m) st)) =
        calls st @ map (GetScaleCall k ns n) (take 1 (polls a k ns n (Suc m) (world st)))"
      by (simp add: do_GetScale_def)
    then show ?thesis by (intro exI[of _ 1]) simp
  next
    case (Some s)
    show ?thesis
    proof (cases "Status_Replicas s = r")
      case True
      with g Some have "calls (snd (WaitLoop a k ns n r t (Suc m) st)) =
          calls st @ map (GetScaleCall k ns n) (take 1 (polls a k ns n (Suc m) (world st)))"
        by (simp add: do_GetScale_def)
      then show ?thesis by (intro exI[of _ 1]) simp
    next
      case False
      let ?st1 = "do_Sleep a (st\<lparr>world := w', calls := calls st @ [GetScaleCall k ns n (Some s)]\<rparr>)"
      from Suc.IH[of ?st1] obtain j where j: "j \<le> m"
        "calls (snd (WaitLoop a k ns n r t m ?st1)) =
           calls ?st1 @ map (GetScaleCall k ns n) (take j (polls a k ns n m (world ?st1)))"
        by blast
      have "calls (snd (WaitLoop a k ns n r t (Suc m) st)) =
          calls st @ map (GetScaleCall k ns n) (take (Suc j) (polls a k ns n (Suc m) (world st)))"
        using g Some False j(2) by (simp add: do_GetScale_def do_Sleep_def)
      with j(1) show ?thesis by (intro exI[of _ "Suc j"]) simp
    qed
  qed
qed

lemma WaitLoop_Ok:
  assumes "WaitLoop a k ns n r t m st = (Ok u, st')"
  shows "\<exists>s. calls st' \<noteq> [] \<and> last (calls st') = GetScaleCall k ns n (Some s) \<and> Status_Replicas s = r"
  using assms
  by (induction m arbitrary: st)
     (auto simp: do_GetScale_def do_Sleep_def split: prod.splits option.splits if_splits)

lemma WaitLoop_timeout:
  assumes "\<forall>p \<in> set (polls a k ns n m (world st)). \<exists>s. p = Some s \<and> Status_Replicas s \<noteq> r"
  shows "fst (WaitLoop a k ns n r t m st) = Err (ErrNotReached k n ns r t)
       \<and> calls (snd (WaitLoop a k ns n r t m st)) =
           calls st @ map (GetScaleCall k ns n) (polls a k ns n m (world st))"
  using assms
  by (induction m arbitrary: st)
     (auto simp: do_GetScale_def do_Sleep_def split: prod.splits option.splits if_splits)

lemma WaitLoop_converges:
  assumes "j < m"
      and "polls a k ns n m (world st) ! j = Some s" and "Status_Replicas s = r"
      and "\<forall>i < j. \<exists>s'. polls a k ns n m (world st) ! i = Some s' \<and> Status_Replicas s' \<noteq> r"
  shows "fst (WaitLoop a k ns n r t m st) = Ok ()
       \<and> calls (snd (WaitLoop a k ns n r t m st)) =
           calls st @ map (GetScaleCall k ns n) (take (Suc j) (polls a k ns n m (world st)))"
  using assms
proof (induction m arbitrary: st j)
  case 0
  then show ?case by simp
next
  case (Suc m)
  obtain sc e w' where g: "api_GetScale a k ns n (world st) = ((sc, e), w')"
    by (metis prod.exhaust)
  show ?case
  proof (cases j)
    case 0
    with Suc.prems g show ?thesis by (simp add: do_GetScale_def)
  next
    case (Suc j')
    from Suc.prems(4)[rule_format, of 0] Suc g obtain s0 where
      s0: "sc = Some s0" "Status_Replicas s0 \<noteq> r" by auto
    let ?st1 = "do_Sleep a (st\<lparr>world := w', calls := calls st @ [GetScaleCall k ns n (Some s0)]\<rparr>)"
    have w1: "world ?st1 = api_Sleep a w'" by (simp add: do_Sleep_def)
    have p: "polls a k ns n (Suc m) (world st) = Some s0 # polls a k ns n m (world ?st1)"
      using g s0 w1 by simp
    have "fst (WaitLoop a k ns n r t m ?st1) = Ok ()
       \<and> calls (snd (WaitLoop a k ns n r t m ?st1)) =
           calls ?st1 @ map (GetScaleCall k ns n) (take (Suc j') (polls a k ns n m (world ?st1)))"
    proof (rule Suc.IH)
      show "j' < m" using Suc.prems(1) Suc by simp
      show "polls a k ns n m (world ?st1) ! j' = Some s" using Suc.prems(2) p Suc by simp
      show "Status_Replicas s = r" by fact
      show "\<forall>i<j'. \<exists>s'. polls a k ns n m (world ?st1) ! i = Some s' \<and> Status_Replicas s' \<noteq> r"
      proof (intro allI impI)
        fix i assume "i < j'"
        then have "Suc i < j" using Suc by simp
        from Suc.prems(4)[rule_format, OF this] show
          "\<exists>s'. polls a k ns n m (world ?st1) ! i = Some s' \<and> Status_Replicas s' \<noteq> r"
          using p by simp
      qed
    qed
    then show ?thesis using g s0 p Suc by (simp add: do_GetScale_def do_Sleep_def)
  qed
qed

lemma WaitLoop_kinds:
  "\<exists>cs. calls (snd (WaitLoop a k ns n r t m st)) = calls st @ cs
      \<and> update_targets cs = [] \<and> (\<forall>c \<in> set cs. call_kind c = k)"
proof -
  from WaitLoop_effect[of m a k ns n r t st] obtain j where
    "calls (snd (WaitLoop a k ns n r t m st)) =
        calls st @ map (GetScaleCall k ns n) (take j (polls a k ns n m (world st)))" by blast
  then show ?thesis by (intro exI[of _ "map (GetScaleCall k ns n) (take j (polls a k ns n m (world st)))"]) auto
qed

lemma WaitLoop_result:
  "fst (WaitLoop a k ns n r t m st) \<in> {Ok (), Err (ErrNotReached k n ns r t), Panic NilPointerDereference}"
  by (induction m arbitrary: st)
     (auto simp: do_GetScale_def do_Sleep_def split: prod.splits option.splits)

lemma length_polls [simp]: "length (polls a k ns n m w) = m"
  by (induction m arbitrary: w) (auto split: prod.splits)

lemma Wait_first:
  assumes "0 < t" and "api_GetScale a k ns n (world st) = ((Some s, e), w')"
      and "Status_Replicas s = r"
  shows "WaitForReplicas a k ns n r t st =
           (Ok (), st\<lparr>world := w', calls := calls st @ [GetScaleCall k ns n (Some s)]\<rparr>)"
proof -
  from assms(1) obtain m where m: "nat t = Suc m" by (cases "nat t") auto
  show ?thesis using assms(2,3) by (simp add: WaitForReplicas_def m do_GetScale_def)
qed



subsection \<open>How far a cycle gets\<close>

lemma ScaleObject_cases
  [case_names get_failed down_failed wait_down_failed up_failed wait_up_failed success]:
  obtains
    (get_failed) r st1 where
      "GetObject a k ns n st = (r, st1)" "\<forall>d. r \<noteq> Ok (Some d)"
      "ScaleObject a k ns n mw st =
         ((case r of Ok _ \<Rightarrow> Panic NilPointerDereference | Err e \<Rightarrow> Err e | Panic p \<Rightarrow> Panic p), st1)"
  | (down_failed) d st1 r2 st2 where
      "GetObject a k ns n st = (Ok (Some d), st1)"
      "UpdateObjectScale a k ns n 0
         (printf (HasReplicas k (Obj_Name d) ns (Obj_Status_Replicas d)) st1) = (r2, st2)"
      "\<forall>x. r2 \<noteq> Ok x"
      "ScaleObject a k ns n mw st =
         ((case r2 of Ok _ \<Rightarrow> Ok () | Err e \<Rightarrow> Panic (PanicMsg e) | Panic p \<Rightarrow> Panic p), st2)"
  | (wait_down_failed) d st1 x2 st2 r3 st3 where
      "GetObject a k ns n st = (Ok (Some d), st1)"
      "UpdateObjectScale a k ns n 0
         (printf (HasReplicas k (Obj_Name d) ns (Obj_Status_Replicas d)) st1) = (Ok x2, st2)"
      "WaitForReplicas a k ns n 0 mw st2 = (r3, st3)"
      "r3 \<noteq> Ok ()"
      "ScaleObject a k ns n mw st =
         ((case r3 of Ok _ \<Rightarrow> Ok () | Err e \<Rightarrow> Panic (PanicMsg e) | Panic p \<Rightarrow> Panic p), st3)"
  | (up_failed) d st1 x2 st2 st3 r4 st4 where
      "GetObject a k ns n st = (Ok (Some d), st1)"
      "UpdateObjectScale a k ns n 0
         (printf (HasReplicas k (Obj_Name d) ns (Obj_Status_Replicas d)) st1) = (Ok x2, st2)"
      "WaitForReplicas a k ns n 0 mw st2 = (Ok (), st3)"
      "UpdateObjectScale a k ns n (Obj_Status_Replicas d)
         (printf (NowZero k (Obj_Name d) ns (Obj_Status_Replicas d)) st3) = (r4, st4)"
      "\<forall>x. r4 \<noteq> Ok x"
      "ScaleObject a k ns n mw st =
         ((case r4 of Ok _ \<Rightarrow> Ok () | Err e \<Rightarrow> Panic (PanicMsg e) | Panic p \<Rightarrow> Panic p), st4)"
  | (wait_up_failed) d st1 x2 st2 st3 x4 st4 r5 st5 where
      "GetObject a k ns n st = (Ok (Some d), st1)"
      "UpdateObjectScale a k ns n 0
         (printf (HasReplicas k (Obj_Name d) ns (Obj_Status_Replicas d)) st1) = (Ok x2, st2)"
      "WaitForReplicas a k ns n 0 mw st2 = (Ok (), st3)"
      "UpdateObjectScale a k ns n (Obj_Status_Replicas d)
         (printf (NowZero k (Obj_Name d) ns (Obj_Status_Replicas d)) st3) = (Ok x4, st4)"
      "WaitForReplicas a k ns n (Obj_Status_Replicas d) 60 st4 = (r5, st5)"
      "r5 \<noteq> Ok ()"
      "ScaleObject a k ns n mw st =
         ((case r5 of Ok _ \<Rightarrow> Ok () | Err e \<Rightarrow> Panic (PanicMsg e) | Panic p \<Rightarrow> Panic p), st5)"
  | (success) d st1 x2 st2 st3 x4 st4 st5 where
      "GetObject a k ns n st = (Ok (Some d), st1)"
      "UpdateObjectScale a k ns n 0
         (printf (HasReplicas k (Obj_Name d) ns (Obj_Status_Replicas d)) st1) = (Ok x2, st2)"
      "WaitForReplicas a k ns n 0 mw st2 = (Ok (), st3)"
      "UpdateObjectScale a k ns n (Obj_Status_Replicas d)
         (printf (NowZero k (Obj_Name d) ns (Obj_Status_Replicas d)) st3) = (Ok x4, st4)"
      "WaitForReplicas a k ns n (Obj_Status_Replicas d) 60 st4 = (Ok (), st5)"
      "ScaleObject a k ns n mw st =
         (Ok (), printf (ScaledBack k (Obj_Name d) ns (Obj_Status_Replicas d)) st5)"
proof -
  obtain r st1 where g: "GetObject a k ns n st = (r, st1)" by fastforce
  show thesis
  proof (cases "\<exists>d. r = Ok (Some d)")
    case False
    then show thesis
      using get_failed[OF g] by (auto simp: ScaleObject_def g split: res.splits option.splits)
  next
    case True
    then obtain d where r: "r = Ok (Some d)" by blast
    note g = g[unfolded r]
    define p1 where "p1 = printf (HasReplicas k (Obj_Name d) ns (Obj_Status_Replicas d)) st1"
    obtain r2 st2 where u: "UpdateObjectScale a k ns n 0 p1 = (r2, st2)" by fastforce
    show thesis
    proof (cases "\<exists>x. r2 = Ok x")
      case False
      then show thesis
        using down_failed[OF g u[unfolded p1_def]]
        by (auto simp: ScaleObject_def g u[unfolded p1_def] split: res.splits)
    next
      case True
      then obtain x2 where r2: "r2 = Ok x2" by blast
      note u = u[unfolded r2 p1_def]
      obtain r3 st3 where w: "WaitForReplicas a k ns n 0 mw st2 = (r3, st3)" by fastforce
      show thesis
      proof (cases "r3 = Ok ()")
        case False
        then show thesis
          using wait_down_failed[OF g u w]
          by (auto simp: ScaleObject_def g u w split: res.splits)
      next
        case True
        note w = w[unfolded True]
        define p3 where "p3 = printf (NowZero k (Obj_Name d) ns (Obj_Status_Replicas d)) st3"
        obtain r4 st4 where u4: "UpdateObjectScale a k ns n (Obj_Status_Replicas d) p3 = (r4, st4)"
          by fastforce
        show thesis
        proof (cases "\<exists>x. r4 = Ok x")
          case False
          then show thesis
            using up_failed[OF g u w u4[unfolded p3_def]]
            by (auto simp: ScaleObject_def g u w u4[unfolded p3_def] split: res.splits)
        next
          case True
          then obtain x4 where r4: "r4 = Ok x4" by blast
          note u4 = u4[unfolded r4 p3_def]
          obtain r5 st5 where w5: "WaitForReplicas a k ns n (Obj_Status_Replicas d) 60 st4 = (r5, st5)"
            by fastforce
          show thesis
          proof (cases "r5 = Ok ()")
            case False
            then show thesis
              using wait_up_failed[OF g u w u4 w5]
              by (auto simp: ScaleObject_def g u w u4 w5 split: res.splits)
          next
            case True
            show thesis
              using success[OF g u w u4 w5[unfolded True]]
              by (simp add: ScaleObject_def g u w u4 w5 True)
          qed
        qed
      qed
    qed
  qed
qed

subsection \<open>What a cycle adds to the log\<close>

lemma GetObject_D:
  assumes "GetObject a k ns n st = (res, st')"
  shows "calls st' = calls st @ [GetCall k ns n]"
  using GetObject_calls[of a k ns n st] assms by simp

lemma Update_D:
  assumes "UpdateObjectScale a k ns n r st = (res, st')"
  shows "\<exists>cs. calls st' = calls st @ cs \<and> update_targets cs \<in> {[], [r]}
           \<and> (\<forall>c \<in> set cs. call_kind c = k)
           \<and> ((\<exists>x. res = Ok x) \<longrightarrow> update_targets cs = [r]) \<and> out st' = out st"
  using Update_effect[of a k ns n r st] Update_out[of a k ns n r st] assms
  by auto

lemma Wait_D:
  assumes "WaitForReplicas a k ns n r t st = (res, st')"
  shows "\<exists>cs. calls st' = calls st @ cs \<and> update_targets cs = []
           \<and> (\<forall>c \<in> set cs. call_kind c = k) \<and> out st' = out st"
proof -
  have w: "WaitLoop a k ns n r t (nat t) st = (res, st')"
    using assms by (simp add: WaitForReplicas_def)
  have "out (snd (WaitLoop a k ns n r t (nat t) st)) = out st" by simp
  then have o: "out st' = out st" unfolding w by simp
  show ?thesis using WaitLoop_kinds[of a k ns n r t "nat t" st] o unfolding w by auto
qed

lemma Wait_Ok_D:
  assumes "WaitForReplicas a k ns n r t st = (Ok (), st')"
  shows "\<exists>s. last (calls st') = GetScaleCall k ns n (Some s) \<and> Status_Replicas s = r"
  using WaitLoop_Ok[of a k ns n r t "nat t" st "()" st'] assms
  by (auto simp: WaitForReplicas_def)

lemma ScaleObject_log:
  "\<exists>cs. calls (snd (ScaleObject a k ns n mw st)) = calls st @ GetCall k ns n # cs
      \<and> (\<forall>c \<in> set cs. call_kind c = k)
      \<and> (\<forall>d w1. api_Get a k ns n (world st) = ((Some d, None), w1) \<longrightarrow>
            update_targets cs \<in> {[], [0], [0, Obj_Status_Replicas d]}
          \<and> (fst (ScaleObject a k ns n mw st) = Ok () \<longrightarrow> update_targets cs = [0, Obj_Status_Replicas d]))"
proof (cases rule: ScaleObject_cases[of a k ns n st mw])
  case (get_failed r st1)
  have "\<And>d w1. api_Get a k ns n (world st) \<noteq> ((Some d, None), w1)"
    using get_failed(1,2) GetObject_found by (metis fst_conv)
  then show ?thesis
    using GetObject_D[OF get_failed(1)] get_failed(3) by (intro exI[of _ "[]"]) simp
next
  case (down_failed d st1 r2 st2)
  from GetObject_Ok[OF down_failed(1)] have d: "\<And>d' w1. api_Get a k ns n (world st) = ((Some d', None), w1) \<Longrightarrow> d' = d"
    by simp
  from Update_D[OF down_failed(2)] obtain cs2 where cs2: "calls st2 = calls st1 @ cs2"
     "update_targets cs2 \<in> {[], [0]}" "\<forall>c \<in> set cs2. call_kind c = k" by auto
  have r: "fst (ScaleObject a k ns n mw st) \<noteq> Ok ()"
    using down_failed(3,4) by (auto split: res.splits)
  show ?thesis
    using GetObject_D[OF down_failed(1)] down_failed(4) cs2 d r
    by (intro exI[of _ cs2]) auto
next
  case (wait_down_failed d st1 x2 st2 r3 st3)
  from GetObject_Ok[OF wait_down_failed(1)] have d: "\<And>d' w1. api_Get a k ns n (world st) = ((Some d', None), w1) \<Longrightarrow> d' = d"
    by simp
  from Update_D[OF wait_down_failed(2)] obtain cs2 where cs2: "calls st2 = calls st1 @ cs2"
     "update_targets cs2 = [0]" "\<forall>c \<in> set cs2. call_kind c = k" by auto
  from Wait_D[OF wait_down_failed(3)] obtain cs3 where cs3: "calls st3 = calls st2 @ cs3"
     "update_targets cs3 = []" "\<forall>c \<in> set cs3. call_kind c = k" by auto
  have r: "fst (ScaleObject a k ns n mw st) \<noteq> Ok ()"
    using wait_down_failed(4,5) by (auto split: res.splits)
  show ?thesis
    using GetObject_D[OF wait_down_failed(1)] wait_down_failed(5) cs2 cs3 d r
    by (intro exI[of _ "cs2 @ cs3"]) auto
next
  case (up_failed d st1 x2 st2 st3 r4 st4)
  from GetObject_Ok[OF up_failed(1)] have d: "\<And>d' w1. api_Get a k ns n (world st) = ((Some d', None), w1) \<Longrightarrow> d' = d"
    by simp
  from Update_D[OF up_failed(2)] obtain cs2 where cs2: "calls st2 = calls st1 @ cs2"
     "update_targets cs2 = [0]" "\<forall>c \<in> set cs2. call_kind c = k" by auto
  from Wait_D[OF up_failed(3)] obtain cs3 where cs3: "calls st3 = calls st2 @ cs3"
     "update_targets cs3 = []" "\<forall>c \<in> set cs3. call_kind c = k" by auto
  from Update_D[OF up_failed(4)] obtain cs4 where cs4: "calls st4 = calls st3 @ cs4"
     "update_targets cs4 \<in> {[], [Obj_Status_Replicas d]}" "\<forall>c \<in> set cs4. call_kind c = k" by auto
  have r: "fst (ScaleObject a k ns n mw st) \<noteq> Ok ()"
    using up_failed(5,6) by (auto split: res.splits)
  show ?thesis
    using GetObject_D[OF up_failed(1)] up_failed(6) cs2 cs3 cs4 d r
    by (intro exI[of _ "cs2 @ cs3 @ cs4"]) auto
next
  case (wait_up_failed d st1 x2 st2 st3 x4 st4 r5 st5)
  from GetObject_Ok[OF wait_up_failed(1)] have d: "\<And>d' w1. api_Get a k ns n (world st) = ((Some d', None), w1) \<Longrightarrow> d' = d"
    by simp
  from Update_D[OF wait_up_failed(2)] obtain cs2 where cs2: "calls st2 = calls st1 @ cs2"
     "update_targets cs2 = [0]" "\<forall>c \<in> set cs2. call_kind c = k" by auto
  from Wait_D[OF wait_up_failed(3)] obtain cs3 where cs3: "calls st3 = calls st2 @ cs3"
     "update_targets cs3 = []" "\<forall>c \<in> set cs3. call_kind c = k" by auto
  from Update_D[OF wait_up_failed(4)] obtain cs4 where cs4: "calls st4 = calls st3 @ cs4"
     "update_targets cs4 = [Obj_Status_Replicas d]" "\<forall>c \<in> set cs4. call_kind c = k" by auto
  from Wait_D[OF wait_up_failed(5)] obtain cs5 where cs5: "calls st5 = calls st4 @ cs5"
     "update_targets cs5 = []" "\<forall>c \<in> set cs5. call_kind c = k" by auto
  show ?thesis
    using GetObject_D[OF wait_up_failed(1)] wait_up_failed(7) cs2 cs3 cs4 cs5 d
    by (intro exI[of _ "cs2 @ cs3 @ cs4 @ cs5"]) auto
next
  case (success d st1 x2 st2 st3 x4 st4 st5)
  from GetObject_Ok[OF success(1)] have d: "\<And>d' w1. api_Get a k ns n (world st) = ((Some d', None), w1) \<Longrightarrow> d' = d"
    by simp
  from Update_D[OF success(2)] obtain cs2 where cs2: "calls st2 = calls st1 @ cs2"
     "update_targets cs2 = [0]" "\<forall>c \<in> set cs2. call_kind c = k" by auto
  from Wait_D[OF success(3)] obtain cs3 where cs3: "calls st3 = calls st2 @ cs3"
     "update_targets cs3 = []" "\<forall>c \<in> set cs3. call_kind c = k" by auto
  from Update_D[OF success(4)] obtain cs4 where cs4: "calls st4 = calls st3 @ cs4"
     "update_targets cs4 = [Obj_Status_Replicas d]" "\<forall>c \<in> set cs4. call_kind c = k" by auto
  from Wait_D[OF success(5)] obtain cs5 where cs5: "calls st5 = calls st4 @ cs5"
     "update_targets cs5 = []" "\<forall>c \<in> set cs5. call_kind c = k" by auto
  show ?thesis
    using GetObject_D[OF success(1)] success(6) cs2 cs3 cs4 cs5 d
    by (intro exI[of _ "cs2 @ cs3 @ cs4 @ cs5"]) auto
qed

lemma GetObject_Panic:
  assumes "GetObject a k ns n st = (Panic p, st1)"
  shows "\<exists>pt e. api_Get a k ns n (world st) = ((pt, Some e), world st1) \<and> p = PanicMsg e
           \<and> \<not> IsNotFound e \<and> asStatusError e = None"
  using assms
  by (auto simp: GetObject_def do_Get_def printf_def split: prod.splits option.splits if_splits)

lemma Wait_Err_D:
  assumes "WaitForReplicas a k ns n r t st = (Err e, st')"
  shows "e = ErrNotReached k n ns r t"
  using WaitLoop_result[of a k ns n r t "nat t" st] assms by (simp add: WaitForReplicas_def)

lemma Wait_Panic_D:
  assumes "WaitForReplicas a k ns n r t st = (Panic p, st')"
  shows "p = NilPointerDereference"
  using WaitLoop_result[of a k ns n r t "nat t" st] assms by (simp add: WaitForReplicas_def)

section \<open>The scale-down wait runs out\<close>

text \<open>
  C3 (as amended). \<open>ScaleDeployment\<close> is \<open>ScaleObject\<close> at \<open>Deployment\<close> and
  \<open>ScaleStatefulSet\<close> is \<open>ScaleObject\<close> at \<open>StatefulSet\<close>. When the first fetch and the
  scale-to-zero update succeed and each of the \<open>maxWaitSeconds\<close> polls that follow returns an
  object whose observed count is not 0, the cycle panics with the message of the error
  "... has not reached 0 replicas after maxWaitSeconds tries" (the error is not returned to
  the caller). The requests sent are the fetch, the read and the update of the scale, and the
  polls: the only update carries the desired count 0, the scale-up update is never issued.
\<close>

theorem ScaleObject_scale_down_timeout:
  assumes "api_Get a k ns n (world st) = ((Some d, None), w1)"
      and "api_GetScale a k ns n w1 = ((Some s1, None), w2)"
      and "api_UpdateScale a k ns n (s1\<lparr>Spec_Replicas := 0\<rparr>) w2 = ((u, None), w3)"
      and "\<forall>p \<in> set (polls a k ns n (nat mw) w3). \<exists>s. p = Some s \<and> Status_Replicas s \<noteq> 0"
  shows "fst (ScaleObject a k ns n mw st) = Panic (PanicMsg (ErrNotReached k n ns 0 mw))
       \<and> calls (snd (ScaleObject a k ns n mw st)) =
           calls st @ [GetCall k ns n, GetScaleCall k ns n (Some s1),
                       UpdateScaleCall k ns n (s1\<lparr>Spec_Replicas := 0\<rparr>)]
                    @ map (GetScaleCall k ns n) (polls a k ns n (nat mw) w3)
       \<and> update_targets (calls (snd (ScaleObject a k ns n mw st))) = update_targets (calls st) @ [0]"
proof -
  define st1 where "st1 = st\<lparr>world := w1, calls := calls st @ [GetCall k ns n]\<rparr>"
  define p1 where "p1 = printf (HasReplicas k (Obj_Name d) ns (Obj_Status_Replicas d)) st1"
  define st2 where "st2 = p1\<lparr>world := w3, calls := calls p1 @ [GetScaleCall k ns n (Some s1),
                   UpdateScaleCall k ns n (s1\<lparr>Spec_Replicas := 0\<rparr>)]\<rparr>"
  have g: "GetObject a k ns n st = (Ok (Some d), st1)"
    unfolding st1_def by (rule GetObject_found[OF assms(1)])
  have up: "UpdateObjectScale a k ns n 0 p1 = (Ok (s1\<lparr>Spec_Replicas := 0\<rparr>), st2)"
    unfolding st2_def
    by (rule Update_succeeds[where w = w2 and u = u]) (simp_all add: assms p1_def st1_def)
  have c2: "calls st2 = calls st @ [GetCall k ns n, GetScaleCall k ns n (Some s1),
                       UpdateScaleCall k ns n (s1\<lparr>Spec_Replicas := 0\<rparr>)]"
    by (simp add: st2_def p1_def st1_def)
  have "\<forall>p \<in> set (polls a k ns n (nat mw) (world st2)). \<exists>s. p = Some s \<and> Status_Replicas s \<noteq> 0"
    using assms(4) by (simp add: st2_def)
  from WaitLoop_timeout[OF this, of mw]
  obtain st3 where w: "WaitForReplicas a k ns n 0 mw st2 = (Err (ErrNotReached k n ns 0 mw), st3)"
    and c3: "calls st3 = calls st2 @ map (GetScaleCall k ns n) (polls a k ns n (nat mw) w3)"
    unfolding WaitForReplicas_def
    by (cases "WaitLoop a k ns n 0 mw (nat mw) st2") (auto simp: st2_def)
  have eq: "ScaleObject a k ns n mw st = (Panic (PanicMsg (ErrNotReached k n ns 0 mw)), st3)"
    unfolding ScaleObject_def g by (simp add: p1_def[symmetric] up w)
  show ?thesis by (simp add: eq c3 c2)
qed

theorem ScaleObject_scale_down_timeout_witness:
  "api_Get cluster_api Deployment ''default'' ''nginx'' (world (start (nginx 3 [1])))
     = ((Some \<lparr>Obj_Name = ''nginx'', Obj_Spec_Replicas = Some 3, Obj_Status_Replicas = 1\<rparr>, None), nginx 3 [1])
   \<and> api_GetScale cluster_api Deployment ''default'' ''nginx'' (nginx 3 [1])
     = ((Some \<lparr>Spec_Replicas = 3, Status_Replicas = 1\<rparr>, None), nginx 3 [1])
   \<and> api_UpdateScale cluster_api Deployment ''default'' ''nginx''
        (\<lparr>Spec_Replicas = 3, Status_Replicas = 1\<rparr>\<lparr>Spec_Replicas := 0\<rparr>) (nginx 3 [1])
     = ((Some \<lparr>Spec_Replicas = 0, Status_Replicas = 1\<rparr>, None), nginx 0 [1])
   \<and> polls cluster_api Deployment ''default'' ''nginx'' (nat 2) (nginx 0 [1])
     = [Some \<lparr>Spec_Replicas = 0, Status_Replicas = 1\<rparr>, Some \<lparr>Spec_Replicas = 0, Status_Replicas = 1\<rparr>]
   \<and> fst (ScaleDeployment cluster_api ''default'' ''nginx'' 2 (start (nginx 3 [1])))
     = Panic (PanicMsg (ErrNotReached Deployment ''nginx'' ''default'' 0 2))
   \<and> update_targets (calls (snd (ScaleDeployment cluster_api ''default'' ''nginx'' 2 (start (nginx 3 [1])))))
     = [0]"
proof -
  have 1: "api_Get cluster_api Deployment ''default'' ''nginx'' (world (start (nginx 3 [1])))
     = ((Some \<lparr>Obj_Name = ''nginx'', Obj_Spec_Replicas = Some 3, Obj_Status_Replicas = 1\<rparr>, None), nginx 3 [1])"
    by (simp add: cluster_api_def start_def nginx_def observed_def)
  have 2: "api_GetScale cluster_api Deployment ''default'' ''nginx'' (nginx 3 [1])
     = ((Some \<lparr>Spec_Replicas = 3, Status_Replicas = 1\<rparr>, None), nginx 3 [1])"
    by (simp add: cluster_api_def nginx_def observed_def)
  have 3: "api_UpdateScale cluster_api Deployment ''default'' ''nginx''
        (\<lparr>Spec_Replicas = 3, Status_Replicas = 1\<rparr>\<lparr>Spec_Replicas := 0\<rparr>) (nginx 3 [1])
     = ((Some \<lparr>Spec_Replicas = 0, Status_Replicas = 1\<rparr>, None), nginx 0 [1])"
    by (simp add: cluster_api_def nginx_def)
  have 4: "polls cluster_api Deployment ''default'' ''nginx'' (nat 2) (nginx 0 [1])
     = [Some \<lparr>Spec_Replicas = 0, Status_Replicas = 1\<rparr>, Some \<lparr>Spec_Replicas = 0, Status_Replicas = 1\<rparr>]"
    by (simp add: cluster_api_def nginx_def observed_def eval_nat_numeral)
  have 5: "\<forall>p \<in> set (polls cluster_api Deployment ''default'' ''nginx'' (nat 2) (nginx 0 [1])).
             \<exists>s. p = Some s \<and> Status_Replicas s \<noteq> 0"
    unfolding 4 by simp
  from ScaleObject_scale_down_timeout[OF 1 2 3 5]
  show ?thesis using 1 2 3 4 by (simp add: ScaleDeployment_def start_def)
qed

text \<open>
  C3 as stated fails: with the observed count stuck at 1 and \<open>maxWaitSeconds = 2\<close> both polls
  see 1, and \<open>ScaleDeployment\<close> does not return the timeout error to its caller: it panics.
\<close>

theorem ScaleDeployment_timeout_panics:
  "polls cluster_api Deployment ''default'' ''nginx'' 2 (nginx 0 [1])
     = [Some \<lparr>Spec_Replicas = 0, Status_Replicas = 1\<rparr>,
        Some \<lparr>Spec_Replicas = 0, Status_Replicas = 1\<rparr>]
   \<and> fst (ScaleDeployment cluster_api ''default'' ''nginx'' 2 (start (nginx 3 [1])))
     \<noteq> Err (ErrNotReached Deployment ''nginx'' ''default'' 0 2)
   \<and> fst (ScaleDeployment cluster_api ''default'' ''nginx'' 2 (start (nginx 3 [1])))
     = Panic (PanicMsg (ErrNotReached Deployment ''nginx'' ''default'' 0 2))"
proof -
  have 1: "polls cluster_api Deployment ''default'' ''nginx'' 2 (nginx 0 [1])
     = [Some \<lparr>Spec_Replicas = 0, Status_Replicas = 1\<rparr>,
        Some \<lparr>Spec_Replicas = 0, Status_Replicas = 1\<rparr>]"
    by code_simp
  have 2: "fst (ScaleDeployment cluster_api ''default'' ''nginx'' 2 (start (nginx 3 [1])))
     = Panic (PanicMsg (ErrNotReached Deployment ''nginx'' ''default'' 0 2))"
    by code_simp
  show ?thesis using 1 2 by simp
qed

section \<open>The whole cycle\<close>

text \<open>
  C1 (as amended). \<open>ScaleDeployment\<close> and \<open>ScaleStatefulSet\<close> are \<open>ScaleObject\<close> at the
  two kinds. A cycle ends in exactly one of the following ways.
  \<^item> The first fetch returns an error (not-found, or another status error): the cycle returns
    that error to its caller, and the fetch is the only request it sent.
  \<^item> The first fetch panics on an error that is no status error, or returns no object: the
    cycle panics.
  \<^item> The first fetch returns a workload, and its observed count is \<open>originalReplicas\<close>. Then
    the four steps run in order: the update of the scale to 0, the wait for 0 with
    \<open>maxWaitSeconds\<close> tries, the update of the scale to \<open>originalReplicas\<close>, the wait for
    \<open>originalReplicas\<close> with 60 tries. The first step that returns an error makes the cycle
    panic with the message of that error (for a wait, the error "... has not reached ...
    replicas after ... tries"), and a step that panics makes the cycle panic; in neither case
    does the cycle report success or return the error to its caller. When all four steps
    succeed the cycle reports success, and the last request it sent is a poll that saw the
    observed count \<open>originalReplicas\<close>.
\<close>

theorem ScaleObject_outcome:
  "(\<exists>e st1 p w1.
      GetObject a k ns n st = (Err e, st1) \<and> api_Get a k ns n (world st) = ((p, Some e), w1)
      \<and> calls st1 = calls st @ [GetCall k ns n]
      \<and> ScaleObject a k ns n mw st = (Err e, st1))
   \<or> (\<exists>e st1 p w1.
      GetObject a k ns n st = (Panic (PanicMsg e), st1)
      \<and> api_Get a k ns n (world st) = ((p, Some e), w1)
      \<and> ScaleObject a k ns n mw st = (Panic (PanicMsg e), st1))
   \<or> (\<exists>st1.
      GetObject a k ns n st = (Ok None, st1)
      \<and> ScaleObject a k ns n mw st = (Panic NilPointerDereference, st1))
   \<or> (\<exists>d st1 w1.
      GetObject a k ns n st = (Ok (Some d), st1)
      \<and> api_Get a k ns n (world st) = ((Some d, None), w1)
      \<and> ((\<exists>e st2.
            UpdateObjectScale a k ns n 0
              (printf (HasReplicas k (Obj_Name d) ns (Obj_Status_Replicas d)) st1) = (Err e, st2)
            \<and> ScaleObject a k ns n mw st = (Panic (PanicMsg e), st2))
         \<or> (\<exists>p st2.
            UpdateObjectScale a k ns n 0
              (printf (HasReplicas k (Obj_Name d) ns (Obj_Status_Replicas d)) st1) = (Panic p, st2)
            \<and> ScaleObject a k ns n mw st = (Panic p, st2))
         \<or> (\<exists>x2 st2.
            UpdateObjectScale a k ns n 0
              (printf (HasReplicas k (Obj_Name d) ns (Obj_Status_Replicas d)) st1) = (Ok x2, st2)
            \<and> ((\<exists>st3.
                  WaitForReplicas a k ns n 0 mw st2 = (Err (ErrNotReached k n ns 0 mw), st3)
                  \<and> ScaleObject a k ns n mw st
                      = (Panic (PanicMsg (ErrNotReached k n ns 0 mw)), st3))
               \<or> (\<exists>st3.
                  WaitForReplicas a k ns n 0 mw st2 = (Panic NilPointerDereference, st3)
                  \<and> ScaleObject a k ns n mw st = (Panic NilPointerDereference, st3))
               \<or> (\<exists>st3.
                  WaitForReplicas a k ns n 0 mw st2 = (Ok (), st3)
                  \<and> ((\<exists>e st4.
                        UpdateObjectScale a k ns n (Obj_Status_Replicas d)
                          (printf (NowZero k (Obj_Name d) ns (Obj_Status_Replicas d)) st3)
                          = (Err e, st4)
                        \<and> ScaleObject a k ns n mw st = (Panic (PanicMsg e), st4))
                     \<or> (\<exists>p st4.
                        UpdateObjectScale a k ns n (Obj_Status_Replicas d)
                          (printf (NowZero k (Obj_Name d) ns (Obj_Status_Replicas d)) st3)
                          = (Panic p, st4)
                        \<and> ScaleObject a k ns n mw st = (Panic p, st4))
                     \<or> (\<exists>x4 st4.
                        UpdateObjectScale a k ns n (Obj_Status_Replicas d)
                          (printf (NowZero k (Obj_Name d) ns (Obj_Status_Replicas d)) st3)
                          = (Ok x4, st4)
                        \<and> ((\<exists>st5.
                              WaitForReplicas a k ns n (Obj_Status_Replicas d) 60 st4
                                = (Err (ErrNotReached k n ns (Obj_Status_Replicas d) 60), st5)
                              \<and> ScaleObject a k ns n mw st
                                  = (Panic (PanicMsg (ErrNotReached k n ns (Obj_Status_Replicas d) 60)),
                                     st5))
                           \<or> (\<exists>st5.
                              WaitForReplicas a k ns n (Obj_Status_Replicas d) 60 st4
                                = (Panic NilPointerDereference, st5)
                              \<and> ScaleObject a k ns n mw st = (Panic NilPointerDereference, st5))
                           \<or> (\<exists>st5 s.
                              WaitForReplicas a k ns n (Obj_Status_Replicas d) 60 st4 = (Ok (), st5)
                              \<and> ScaleObject a k ns n mw st
                                  = (Ok (), printf (ScaledBack k (Obj_Name d) ns (Obj_Status_Replicas d)) st5)
                              \<and> last (calls (snd (ScaleObject a k ns n mw st)))
                                  = GetScaleCall k ns n (Some s)
                              \<and> Status_Replicas s = Obj_Status_Replicas d)))))))))"
  (is "?A \<or> ?B \<or> ?C \<or> ?D")
proof (cases rule: ScaleObject_cases[of a k ns n st mw])
  case (get_failed r st1)
  show ?thesis
  proof (cases r)
    case (Ok x)
    with get_failed(2) have "x = None" by (cases x) auto
    with get_failed Ok have ?C by simp
    then show ?thesis by blast
  next
    case (Err e)
    from GetObject_Err[OF get_failed(1)[unfolded Err]] GetObject_D[OF get_failed(1)]
    have ?A using get_failed(1,3) Err by auto
    then show ?thesis by blast
  next
    case (Panic p)
    from GetObject_Panic[OF get_failed(1)[unfolded Panic]]
    have ?B using get_failed(1,3) Panic by auto
    then show ?thesis by blast
  qed
next
  case (down_failed d st1 r2 st2)
  from GetObject_Ok[OF down_failed(1)] obtain w1 where
    g: "api_Get a k ns n (world st) = ((Some d, None), w1)" by blast
  have ?D
    apply (rule exI[of _ d], rule exI[of _ st1], rule exI[of _ w1])
    using down_failed g by (cases r2) auto
  then show ?thesis by blast
next
  case (wait_down_failed d st1 x2 st2 r3 st3)
  from GetObject_Ok[OF wait_down_failed(1)] obtain w1 where
    g: "api_Get a k ns n (world st) = ((Some d, None), w1)" by blast
  have ?D
    apply (rule exI[of _ d], rule exI[of _ st1], rule exI[of _ w1])
    using wait_down_failed g Wait_Err_D[of a k ns n 0 mw st2 _ st3] Wait_Panic_D[of a k ns n 0 mw st2 _ st3]
    by (cases r3) auto
  then show ?thesis by blast
next
  case (up_failed d st1 x2 st2 st3 r4 st4)
  from GetObject_Ok[OF up_failed(1)] obtain w1 where
    g: "api_Get a k ns n (world st) = ((Some d, None), w1)" by blast
  have ?D
    apply (rule exI[of _ d], rule exI[of _ st1], rule exI[of _ w1])
    using up_failed g by (cases r4) auto
  then show ?thesis by blast
next
  case (wait_up_failed d st1 x2 st2 st3 x4 st4 r5 st5)
  from GetObject_Ok[OF wait_up_failed(1)] obtain w1 where
    g: "api_Get a k ns n (world st) = ((Some d, None), w1)" by blast
  have ?D
    apply (rule exI[of _ d], rule exI[of _ st1], rule exI[of _ w1])
    using wait_up_failed g Wait_Err_D[of a k ns n "Obj_Status_Replicas d" 60 st4 _ st5]
          Wait_Panic_D[of a k ns n "Obj_Status_Replicas d" 60 st4 _ st5]
    by (cases r5) auto
  then show ?thesis by blast
next
  case (success d st1 x2 st2 st3 x4 st4 st5)
  from GetObject_Ok[OF success(1)] obtain w1 where
    g: "api_Get a k ns n (world st) = ((Some d, None), w1)" by blast
  from Wait_Ok_D[OF success(5)] obtain s where
    s: "last (calls st5) = GetScaleCall k ns n (Some s)" "Status_Replicas s = Obj_Status_Replicas d"
    by blast
  have ?D
    apply (rule exI[of _ d], rule exI[of _ st1], rule exI[of _ w1])
    using success g s by auto
  then show ?thesis by blast
qed

theorem ScaleObject_outcome_witness:
  "fst (ScaleDeployment cluster_api ''default'' ''nginx'' 300 (start (nginx 3 [3, 0, 3]))) = Ok ()
   \<and> (\<exists>s. last (calls (snd (ScaleDeployment cluster_api ''default'' ''nginx'' 300
                              (start (nginx 3 [3, 0, 3])))))
             = GetScaleCall Deployment ''default'' ''nginx'' (Some s)
          \<and> Status_Replicas s = 3)
   \<and> WaitForReplicas cluster_api Deployment ''default'' ''nginx'' 0 2
        \<lparr>world = nginx 0 [1],
         calls = [GetCall Deployment ''default'' ''nginx'',
                  GetScaleCall Deployment ''default'' ''nginx''
                    (Some \<lparr>Spec_Replicas = 3, Status_Replicas = 1\<rparr>),
                  UpdateScaleCall Deployment ''default'' ''nginx''
                    \<lparr>Spec_Replicas = 0, Status_Replicas = 1\<rparr>],
         out = [HasReplicas Deployment ''nginx'' ''default'' 1]\<rparr>
       = (Err (ErrNotReached Deployment ''nginx'' ''default'' 0 2),
          snd (ScaleDeployment cluster_api ''default'' ''nginx'' 2 (start (nginx 3 [1]))))
   \<and> fst (ScaleDeployment cluster_api ''default'' ''nginx'' 2 (start (nginx 3 [1])))
       = Panic (PanicMsg (ErrNotReached Deployment ''nginx'' ''default'' 0 2))"
proof -
  let ?d3 = "\<lparr>Obj_Name = ''nginx'', Obj_Spec_Replicas = Some 3, Obj_Status_Replicas = 3\<rparr>"
  let ?d1 = "\<lparr>Obj_Name = ''nginx'', Obj_Spec_Replicas = Some 3, Obj_Status_Replicas = 1\<rparr>"
  let ?c1 = "[GetCall Deployment ''default'' ''nginx'']"
  let ?c2 = "[GetCall Deployment ''default'' ''nginx'',
              GetScaleCall Deployment ''default'' ''nginx''
                (Some \<lparr>Spec_Replicas = 3, Status_Replicas = 1\<rparr>),
              UpdateScaleCall Deployment ''default'' ''nginx''
                \<lparr>Spec_Replicas = 0, Status_Replicas = 1\<rparr>]"
  let ?o1 = "[HasReplicas Deployment ''nginx'' ''default'' 1]"
  \<comment> \<open>a cycle that succeeds\<close>
  have ok: "fst (ScaleObject cluster_api Deployment ''default'' ''nginx'' 300
                   (start (nginx 3 [3, 0, 3]))) = Ok ()"
    by code_simp
  have g: "api_Get cluster_api Deployment ''default'' ''nginx'' (world (start (nginx 3 [3, 0, 3])))
     = ((Some ?d3, None), nginx 3 [3, 0, 3])"
    by (simp add: cluster_api_def start_def nginx_def observed_def)
  note A = ScaleObject_outcome[where a = cluster_api and k = Deployment and ns = "''default''"
             and n = "''nginx''" and mw = 300 and st = "start (nginx 3 [3, 0, 3])"]
  have A': "\<exists>s. last (calls (snd (ScaleObject cluster_api Deployment ''default'' ''nginx'' 300
                              (start (nginx 3 [3, 0, 3])))))
             = GetScaleCall Deployment ''default'' ''nginx'' (Some s)
          \<and> Status_Replicas s = 3"
    using A ok g by auto
  \<comment> \<open>a cycle whose first wait runs out\<close>
  have b1: "GetObject cluster_api Deployment ''default'' ''nginx'' (start (nginx 3 [1]))
      = (Ok (Some ?d1), \<lparr>world = nginx 3 [1], calls = ?c1, out = []\<rparr>)"
    by code_simp
  have b2: "UpdateObjectScale cluster_api Deployment ''default'' ''nginx'' 0
        (printf (HasReplicas Deployment ''nginx'' ''default'' 1)
           \<lparr>world = nginx 3 [1], calls = ?c1, out = []\<rparr>)
      = (Ok \<lparr>Spec_Replicas = 0, Status_Replicas = 1\<rparr>,
         \<lparr>world = nginx 0 [1], calls = ?c2, out = ?o1\<rparr>)"
    by code_simp
  have b3: "fst (WaitForReplicas cluster_api Deployment ''default'' ''nginx'' 0 2
        \<lparr>world = nginx 0 [1], calls = ?c2, out = ?o1\<rparr>)
      = Err (ErrNotReached Deployment ''nginx'' ''default'' 0 2)"
    by code_simp
  note B = ScaleObject_outcome[where a = cluster_api and k = Deployment and ns = "''default''"
             and n = "''nginx''" and mw = 2 and st = "start (nginx 3 [1])"]
  have B': "WaitForReplicas cluster_api Deployment ''default'' ''nginx'' 0 2
        \<lparr>world = nginx 0 [1], calls = ?c2, out = ?o1\<rparr>
       = (Err (ErrNotReached Deployment ''nginx'' ''default'' 0 2),
          snd (ScaleObject cluster_api Deployment ''default'' ''nginx'' 2 (start (nginx 3 [1]))))
     \<and> fst (ScaleObject cluster_api Deployment ''default'' ''nginx'' 2 (start (nginx 3 [1])))
       = Panic (PanicMsg (ErrNotReached Deployment ''nginx'' ''default'' 0 2))"
    using B b2 b3 unfolding b1 by auto
  show ?thesis using ok A' B' by (simp add: ScaleDeployment_def)
qed

text \<open>
  C1 as stated fails: with the observed count of the statefulset stuck at 2 and
  \<open>maxWaitSeconds = 1\<close> the cycle neither succeeds nor returns an error to its caller; it
  panics.
\<close>

theorem ScaleStatefulSet_failure_panics:
  "fst (ScaleStatefulSet cluster_api ''prod'' ''mysql'' 1 (start (mysql 2 [2])))
     = Panic (PanicMsg (ErrNotReached StatefulSet ''mysql'' ''prod'' 0 1))
   \<and> fst (ScaleStatefulSet cluster_api ''prod'' ''mysql'' 1 (start (mysql 2 [2]))) \<noteq> Ok ()
   \<and> fst (ScaleStatefulSet cluster_api ''prod'' ''mysql'' 1 (start (mysql 2 [2])))
     \<noteq> Err (ErrNotReached StatefulSet ''mysql'' ''prod'' 0 1)"
proof -
  have "fst (ScaleStatefulSet cluster_api ''prod'' ''mysql'' 1 (start (mysql 2 [2])))
     = Panic (PanicMsg (ErrNotReached StatefulSet ''mysql'' ''prod'' 0 1))"
    by code_simp
  then show ?thesis by simp
qed



section \<open>The scale-up wait\<close>

text \<open>
  C6. For a cycle of either kind: once the first fetch, the scale-to-zero update, the first wait (whatever
  \<open>maxWaitSeconds\<close> is) and the scale-up update have succeeded, the cycle polls at most 60
  times. If each of the 60 polls returns an object whose observed count differs from
  \<open>originalReplicas\<close>, all 60 are sent, the wait returns the error "... has not reached
  originalReplicas replicas after 60 tries" and the cycle panics with it. If poll number \<open>j\<close>
  (counting from 0) is the first to see \<open>originalReplicas\<close>, the cycle succeeds after exactly
  \<open>j + 1\<close> polls.
\<close>

theorem ScaleObject_scale_up_wait:
  assumes "GetObject a k ns n st = (Ok (Some d), st1)"
      and "UpdateObjectScale a k ns n 0
             (printf (HasReplicas k (Obj_Name d) ns (Obj_Status_Replicas d)) st1) = (Ok x2, st2)"
      and "WaitForReplicas a k ns n 0 mw st2 = (Ok (), st3)"
      and "UpdateObjectScale a k ns n (Obj_Status_Replicas d)
             (printf (NowZero k (Obj_Name d) ns (Obj_Status_Replicas d)) st3) = (Ok x4, st4)"
  shows "length (polls a k ns n 60 (world st4)) = 60
       \<and> (\<exists>j \<le> 60. calls (snd (ScaleObject a k ns n mw st)) =
             calls st4 @ map (GetScaleCall k ns n) (take j (polls a k ns n 60 (world st4))))
       \<and> ((\<forall>p \<in> set (polls a k ns n 60 (world st4)).
              \<exists>s. p = Some s \<and> Status_Replicas s \<noteq> Obj_Status_Replicas d) \<longrightarrow>
            fst (ScaleObject a k ns n mw st) =
              Panic (PanicMsg (ErrNotReached k n ns (Obj_Status_Replicas d) 60))
          \<and> fst (WaitForReplicas a k ns n (Obj_Status_Replicas d) 60 st4) =
              Err (ErrNotReached k n ns (Obj_Status_Replicas d) 60)
          \<and> calls (snd (ScaleObject a k ns n mw st)) =
              calls st4 @ map (GetScaleCall k ns n) (polls a k ns n 60 (world st4)))
       \<and> (\<forall>j s. j < 60 \<and> polls a k ns n 60 (world st4) ! j = Some s
              \<and> Status_Replicas s = Obj_Status_Replicas d
              \<and> (\<forall>i < j. \<exists>s'. polls a k ns n 60 (world st4) ! i = Some s'
                            \<and> Status_Replicas s' \<noteq> Obj_Status_Replicas d) \<longrightarrow>
            fst (ScaleObject a k ns n mw st) = Ok ()
          \<and> calls (snd (ScaleObject a k ns n mw st)) =
              calls st4 @ map (GetScaleCall k ns n) (take (Suc j) (polls a k ns n 60 (world st4))))"
proof -
  let ?r = "Obj_Status_Replicas d"
  let ?W = "WaitLoop a k ns n ?r 60 60 st4"
  have W: "WaitForReplicas a k ns n ?r 60 st4 = ?W"
    by (simp add: WaitForReplicas_def)
  have S: "ScaleObject a k ns n mw st =
      (case ?W of (Ok _, st5) \<Rightarrow> (Ok (), printf (ScaledBack k (Obj_Name d) ns ?r) st5)
       | (Err e, st5) \<Rightarrow> (Panic (PanicMsg e), st5) | (Panic p, st5) \<Rightarrow> (Panic p, st5))"
    unfolding ScaleObject_def assms(1) W[symmetric] by (simp add: assms(2,3,4) Let_def)
  have c: "calls (snd (ScaleObject a k ns n mw st)) = calls (snd ?W)"
    unfolding S by (simp split: prod.splits res.splits)
  have f: "fst (ScaleObject a k ns n mw st) =
      (case fst ?W of Ok _ \<Rightarrow> Ok () | Err e \<Rightarrow> Panic (PanicMsg e) | Panic p \<Rightarrow> Panic p)"
    unfolding S by (simp split: prod.splits res.splits)
  have 1: "length (polls a k ns n 60 (world st4)) = 60" by simp
  have 2: "\<exists>j \<le> 60. calls (snd (ScaleObject a k ns n mw st)) =
             calls st4 @ map (GetScaleCall k ns n) (take j (polls a k ns n 60 (world st4)))"
    unfolding c by (rule WaitLoop_effect)
  have 3: "fst (ScaleObject a k ns n mw st) = Panic (PanicMsg (ErrNotReached k n ns ?r 60))
          \<and> fst (WaitForReplicas a k ns n ?r 60 st4) = Err (ErrNotReached k n ns ?r 60)
          \<and> calls (snd (ScaleObject a k ns n mw st)) =
              calls st4 @ map (GetScaleCall k ns n) (polls a k ns n 60 (world st4))"
    if "\<forall>p \<in> set (polls a k ns n 60 (world st4)). \<exists>s. p = Some s \<and> Status_Replicas s \<noteq> ?r"
    using WaitLoop_timeout[OF that, of 60] by (simp add: c f WaitForReplicas_def)
  have 4: "fst (ScaleObject a k ns n mw st) = Ok ()
          \<and> calls (snd (ScaleObject a k ns n mw st)) =
              calls st4 @ map (GetScaleCall k ns n) (take (Suc j) (polls a k ns n 60 (world st4)))"
    if "j < 60" "polls a k ns n 60 (world st4) ! j = Some s" "Status_Replicas s = ?r"
       "\<forall>i < j. \<exists>s'. polls a k ns n 60 (world st4) ! i = Some s' \<and> Status_Replicas s' \<noteq> ?r"
    for j s
    using WaitLoop_converges[OF that, of 60] by (simp add: c f)
  show ?thesis using 1 2 3 4 by blast
qed

theorem ScaleObject_scale_up_wait_witness:
  "fst (ScaleDeployment cluster_api ''default'' ''nginx'' 2 (start (nginx 3 [3, 0])))
     = Panic (PanicMsg (ErrNotReached Deployment ''nginx'' ''default'' 3 60))
   \<and> calls (snd (ScaleDeployment cluster_api ''default'' ''nginx'' 2 (start (nginx 3 [3, 0]))))
     = [GetCall Deployment ''default'' ''nginx'',
        GetScaleCall Deployment ''default'' ''nginx'' (Some \<lparr>Spec_Replicas = 3, Status_Replicas = 3\<rparr>),
        UpdateScaleCall Deployment ''default'' ''nginx'' \<lparr>Spec_Replicas = 0, Status_Replicas = 3\<rparr>,
        GetScaleCall Deployment ''default'' ''nginx'' (Some \<lparr>Spec_Replicas = 0, Status_Replicas = 3\<rparr>),
        GetScaleCall Deployment ''default'' ''nginx'' (Some \<lparr>Spec_Replicas = 0, Status_Replicas = 0\<rparr>),
        GetScaleCall Deployment ''default'' ''nginx'' (Some \<lparr>Spec_Replicas = 0, Status_Replicas = 0\<rparr>),
        UpdateScaleCall Deployment ''default'' ''nginx'' \<lparr>Spec_Replicas = 3, Status_Replicas = 0\<rparr>]
       @ replicate 60 (GetScaleCall Deployment ''default'' ''nginx''
                         (Some \<lparr>Spec_Replicas = 3, Status_Replicas = 0\<rparr>))
   \<and> fst (ScaleDeployment cluster_api ''default'' ''nginx'' 2 (start (nginx 3 [3, 0, 3]))) = Ok ()
   \<and> calls (snd (ScaleDeployment cluster_api ''default'' ''nginx'' 2 (start (nginx 3 [3, 0, 3]))))
     = [GetCall Deployment ''default'' ''nginx'',
        GetScaleCall Deployment ''default'' ''nginx'' (Some \<lparr>Spec_Replicas = 3, Status_Replicas = 3\<rparr>),
        UpdateScaleCall Deployment ''default'' ''nginx'' \<lparr>Spec_Replicas = 0, Status_Replicas = 3\<rparr>,
        GetScaleCall Deployment ''default'' ''nginx'' (Some \<lparr>Spec_Replicas = 0, Status_Replicas = 3\<rparr>),
        GetScaleCall Deployment ''default'' ''nginx'' (Some \<lparr>Spec_Replicas = 0, Status_Replicas = 0\<rparr>),
        GetScaleCall Deployment ''default'' ''nginx'' (Some \<lparr>Spec_Replicas = 0, Status_Replicas = 0\<rparr>),
        UpdateScaleCall Deployment ''default'' ''nginx'' \<lparr>Spec_Replicas = 3, Status_Replicas = 0\<rparr>,
        GetScaleCall Deployment ''default'' ''nginx'' (Some \<lparr>Spec_Replicas = 3, Status_Replicas = 0\<rparr>),
        GetScaleCall Deployment ''default'' ''nginx'' (Some \<lparr>Spec_Replicas = 3, Status_Replicas = 3\<rparr>)]"
proof -
  let ?d = "\<lparr>Obj_Name = ''nginx'', Obj_Spec_Replicas = Some 3, Obj_Status_Replicas = 3\<rparr>"
  let ?c1 = "[GetCall Deployment ''default'' ''nginx'']"
  let ?c2 = "?c1 @ [GetScaleCall Deployment ''default'' ''nginx'' (Some \<lparr>Spec_Replicas = 3, Status_Replicas = 3\<rparr>),
        UpdateScaleCall Deployment ''default'' ''nginx'' \<lparr>Spec_Replicas = 0, Status_Replicas = 3\<rparr>]"
  let ?c3 = "?c2 @ [GetScaleCall Deployment ''default'' ''nginx'' (Some \<lparr>Spec_Replicas = 0, Status_Replicas = 3\<rparr>),
        GetScaleCall Deployment ''default'' ''nginx'' (Some \<lparr>Spec_Replicas = 0, Status_Replicas = 0\<rparr>)]"
  let ?c4 = "?c3 @ [GetScaleCall Deployment ''default'' ''nginx'' (Some \<lparr>Spec_Replicas = 0, Status_Replicas = 0\<rparr>),
        UpdateScaleCall Deployment ''default'' ''nginx'' \<lparr>Spec_Replicas = 3, Status_Replicas = 0\<rparr>]"
  let ?o1 = "[HasReplicas Deployment ''nginx'' ''default'' 3]"
  let ?o3 = "?o1 @ [NowZero Deployment ''nginx'' ''default'' 3]"
  \<comment> \<open>the observed count stays at 0 after the scale-up\<close>
  have a1: "GetObject cluster_api Deployment ''default'' ''nginx'' (start (nginx 3 [3, 0]))
      = (Ok (Some ?d), \<lparr>world = nginx 3 [3, 0], calls = ?c1, out = []\<rparr>)"
    by code_simp
  have a2: "UpdateObjectScale cluster_api Deployment ''default'' ''nginx'' 0
        (printf (HasReplicas Deployment (Obj_Name ?d) ''default'' (Obj_Status_Replicas ?d))
           \<lparr>world = nginx 3 [3, 0], calls = ?c1, out = []\<rparr>)
      = (Ok \<lparr>Spec_Replicas = 0, Status_Replicas = 3\<rparr>,
         \<lparr>world = nginx 0 [3, 0], calls = ?c2, out = ?o1\<rparr>)"
    by code_simp
  have a3: "WaitForReplicas cluster_api Deployment ''default'' ''nginx'' 0 2
        \<lparr>world = nginx 0 [3, 0], calls = ?c2, out = ?o1\<rparr>
      = (Ok (), \<lparr>world = nginx 0 [0], calls = ?c3, out = ?o1\<rparr>)"
    by code_simp
  have a4: "UpdateObjectScale cluster_api Deployment ''default'' ''nginx'' (Obj_Status_Replicas ?d)
        (printf (NowZero Deployment (Obj_Name ?d) ''default'' (Obj_Status_Replicas ?d))
           \<lparr>world = nginx 0 [0], calls = ?c3, out = ?o1\<rparr>)
      = (Ok \<lparr>Spec_Replicas = 3, Status_Replicas = 0\<rparr>,
         \<lparr>world = nginx 3 [0], calls = ?c4, out = ?o3\<rparr>)"
    by code_simp
  have ap: "polls cluster_api Deployment ''default'' ''nginx'' 60 (nginx 3 [0])
      = replicate 60 (Some \<lparr>Spec_Replicas = 3, Status_Replicas = 0\<rparr>)"
    by code_simp
  \<comment> \<open>the observed count is back at 3 one second after the scale-up\<close>
  have b1: "GetObject cluster_api Deployment ''default'' ''nginx'' (start (nginx 3 [3, 0, 3]))
      = (Ok (Some ?d), \<lparr>world = nginx 3 [3, 0, 3], calls = ?c1, out = []\<rparr>)"
    by code_simp
  have b2: "UpdateObjectScale cluster_api Deployment ''default'' ''nginx'' 0
        (printf (HasReplicas Deployment (Obj_Name ?d) ''default'' (Obj_Status_Replicas ?d))
           \<lparr>world = nginx 3 [3, 0, 3], calls = ?c1, out = []\<rparr>)
      = (Ok \<lparr>Spec_Replicas = 0, Status_Replicas = 3\<rparr>,
         \<lparr>world = nginx 0 [3, 0, 3], calls = ?c2, out = ?o1\<rparr>)"
    by code_simp
  have b3: "WaitForReplicas cluster_api Deployment ''default'' ''nginx'' 0 2
        \<lparr>world = nginx 0 [3, 0, 3], calls = ?c2, out = ?o1\<rparr>
      = (Ok (), \<lparr>world = nginx 0 [0, 3], calls = ?c3, out = ?o1\<rparr>)"
    by code_simp
  have b4: "UpdateObjectScale cluster_api Deployment ''default'' ''nginx'' (Obj_Status_Replicas ?d)
        (printf (NowZero Deployment (Obj_Name ?d) ''default'' (Obj_Status_Replicas ?d))
           \<lparr>world = nginx 0 [0, 3], calls = ?c3, out = ?o1\<rparr>)
      = (Ok \<lparr>Spec_Replicas = 3, Status_Replicas = 0\<rparr>,
         \<lparr>world = nginx 3 [0, 3], calls = ?c4, out = ?o3\<rparr>)"
    by code_simp
  have bp: "polls cluster_api Deployment ''default'' ''nginx'' 60 (nginx 3 [0, 3])
      = Some \<lparr>Spec_Replicas = 3, Status_Replicas = 0\<rparr>
        # replicate 59 (Some \<lparr>Spec_Replicas = 3, Status_Replicas = 3\<rparr>)"
    by code_simp
  have r59: "replicate 59 x = x # replicate 58 x" for x :: "scale option"
    by (simp add: eval_nat_numeral)
  note A = ScaleObject_scale_up_wait[OF a1 a2 a3 a4]
  note B = ScaleObject_scale_up_wait[OF b1 b2 b3 b4]
  have A': "fst (ScaleObject cluster_api Deployment ''default'' ''nginx'' 2 (start (nginx 3 [3, 0])))
               = Panic (PanicMsg (ErrNotReached Deployment ''nginx'' ''default'' 3 60))
          \<and> calls (snd (ScaleObject cluster_api Deployment ''default'' ''nginx'' 2 (start (nginx 3 [3, 0]))))
               = ?c4 @ replicate 60 (GetScaleCall Deployment ''default'' ''nginx''
                         (Some \<lparr>Spec_Replicas = 3, Status_Replicas = 0\<rparr>))"
    using A by (simp add: ap)
  have B': "fst (ScaleObject cluster_api Deployment ''default'' ''nginx'' 2 (start (nginx 3 [3, 0, 3]))) = Ok ()
          \<and> calls (snd (ScaleObject cluster_api Deployment ''default'' ''nginx'' 2 (start (nginx 3 [3, 0, 3]))))
               = ?c4 @ [GetScaleCall Deployment ''default'' ''nginx'' (Some \<lparr>Spec_Replicas = 3, Status_Replicas = 0\<rparr>),
                        GetScaleCall Deployment ''default'' ''nginx'' (Some \<lparr>Spec_Replicas = 3, Status_Replicas = 3\<rparr>)]"
    using B[THEN conjunct2, THEN conjunct2, THEN conjunct2, rule_format,
            of 1 "\<lparr>Spec_Replicas = 3, Status_Replicas = 3\<rparr>"]
    by (simp add: bp r59)
  show ?thesis using A' B' by (simp add: ScaleDeployment_def)
qed

section \<open>A workload that starts with no observed replicas\<close>

text \<open>
  C10. For a cycle of either kind: let the first fetch return a workload whose observed
  count is 0, whatever its desired count, let both updates succeed, and let the first poll
  after each update see the observed count 0. Then for any \<open>maxWaitSeconds > 0\<close> the cycle
  sends exactly seven requests: the fetch, a read and an update of the scale with desired
  count 0, one poll, a read and an update of the scale with desired count 0 again, one poll;
  it prints its three lines with the count 0 and reports success. The last update it sent
  leaves the desired count at 0.
\<close>

theorem ScaleObject_zero_observed:
  assumes "0 < mw"
      and "api_Get a k ns n (world st) = ((Some d, None), w1)" and "Obj_Status_Replicas d = 0"
      and "api_GetScale a k ns n w1 = ((Some s1, None), w2)"
      and "api_UpdateScale a k ns n (s1\<lparr>Spec_Replicas := 0\<rparr>) w2 = ((u1, None), w3)"
      and "api_GetScale a k ns n w3 = ((Some s2, e2), w4)" and "Status_Replicas s2 = 0"
      and "api_GetScale a k ns n w4 = ((Some s3, None), w5)"
      and "api_UpdateScale a k ns n (s3\<lparr>Spec_Replicas := 0\<rparr>) w5 = ((u2, None), w6)"
      and "api_GetScale a k ns n w6 = ((Some s4, e4), w7)" and "Status_Replicas s4 = 0"
  shows "ScaleObject a k ns n mw st =
           (Ok (),
            \<lparr>world = w7,
             calls = calls st @
               [GetCall k ns n,
                GetScaleCall k ns n (Some s1), UpdateScaleCall k ns n (s1\<lparr>Spec_Replicas := 0\<rparr>),
                GetScaleCall k ns n (Some s2),
                GetScaleCall k ns n (Some s3), UpdateScaleCall k ns n (s3\<lparr>Spec_Replicas := 0\<rparr>),
                GetScaleCall k ns n (Some s4)],
             out = out st @
               [HasReplicas k (Obj_Name d) ns 0, NowZero k (Obj_Name d) ns 0,
                ScaledBack k (Obj_Name d) ns 0]\<rparr>)"
proof -
  define st1 where "st1 = st\<lparr>world := w1, calls := calls st @ [GetCall k ns n]\<rparr>"
  define p1 where "p1 = printf (HasReplicas k (Obj_Name d) ns 0) st1"
  define st2 where "st2 = p1\<lparr>world := w3, calls := calls p1 @ [GetScaleCall k ns n (Some s1),
                   UpdateScaleCall k ns n (s1\<lparr>Spec_Replicas := 0\<rparr>)]\<rparr>"
  define st3 where "st3 = st2\<lparr>world := w4, calls := calls st2 @ [GetScaleCall k ns n (Some s2)]\<rparr>"
  define p3 where "p3 = printf (NowZero k (Obj_Name d) ns 0) st3"
  define st4 where "st4 = p3\<lparr>world := w6, calls := calls p3 @ [GetScaleCall k ns n (Some s3),
                   UpdateScaleCall k ns n (s3\<lparr>Spec_Replicas := 0\<rparr>)]\<rparr>"
  define st5 where "st5 = st4\<lparr>world := w7, calls := calls st4 @ [GetScaleCall k ns n (Some s4)]\<rparr>"
  have g: "GetObject a k ns n st = (Ok (Some d), st1)"
    unfolding st1_def by (rule GetObject_found[OF assms(2)])
  have u2: "UpdateObjectScale a k ns n 0 p1 = (Ok (s1\<lparr>Spec_Replicas := 0\<rparr>), st2)"
    unfolding st2_def
    by (rule Update_succeeds[where w = w2 and u = u1]) (simp_all add: assms p1_def st1_def)
  have w3: "WaitForReplicas a k ns n 0 mw st2 = (Ok (), st3)"
    unfolding st3_def
    by (rule Wait_first[where e = e2]) (simp_all add: assms st2_def)
  have u4: "UpdateObjectScale a k ns n 0 p3 = (Ok (s3\<lparr>Spec_Replicas := 0\<rparr>), st4)"
    unfolding st4_def
    by (rule Update_succeeds[where w = w5 and u = u2]) (simp_all add: assms p3_def st3_def)
  have w5: "WaitForReplicas a k ns n 0 60 st4 = (Ok (), st5)"
    unfolding st5_def
    by (rule Wait_first[where e = e4]) (simp_all add: assms st4_def)
  have "ScaleObject a k ns n mw st = (Ok (), printf (ScaledBack k (Obj_Name d) ns 0) st5)"
    unfolding ScaleObject_def g
    by (simp add: assms(3) p1_def[symmetric] u2 w3 p3_def[symmetric] u4 w5)
  also have "printf (ScaledBack k (Obj_Name d) ns 0) st5 =
            \<lparr>world = w7,
             calls = calls st @
               [GetCall k ns n,
                GetScaleCall k ns n (Some s1), UpdateScaleCall k ns n (s1\<lparr>Spec_Replicas := 0\<rparr>),
                GetScaleCall k ns n (Some s2),
                GetScaleCall k ns n (Some s3), UpdateScaleCall k ns n (s3\<lparr>Spec_Replicas := 0\<rparr>),
                GetScaleCall k ns n (Some s4)],
             out = out st @
               [HasReplicas k (Obj_Name d) ns 0, NowZero k (Obj_Name d) ns 0,
                ScaledBack k (Obj_Name d) ns 0]\<rparr>"
    by (simp add: st5_def st4_def p3_def st3_def st2_def p1_def st1_def printf_def)
  finally show ?thesis .
qed

theorem ScaleObject_zero_observed_witness:
  "Obj_Spec_Replicas \<lparr>Obj_Name = ''nginx'', Obj_Spec_Replicas = Some 3, Obj_Status_Replicas = 0\<rparr> = Some 3
   \<and> api_Get cluster_api Deployment ''default'' ''nginx'' (world (start (nginx 3 [0])))
     = ((Some \<lparr>Obj_Name = ''nginx'', Obj_Spec_Replicas = Some 3, Obj_Status_Replicas = 0\<rparr>, None),
        nginx 3 [0])
   \<and> ScaleDeployment cluster_api ''default'' ''nginx'' 300 (start (nginx 3 [0])) =
       (Ok (),
        \<lparr>world = nginx 0 [0],
         calls =
           [GetCall Deployment ''default'' ''nginx'',
            GetScaleCall Deployment ''default'' ''nginx'' (Some \<lparr>Spec_Replicas = 3, Status_Replicas = 0\<rparr>),
            UpdateScaleCall Deployment ''default'' ''nginx'' \<lparr>Spec_Replicas = 0, Status_Replicas = 0\<rparr>,
            GetScaleCall Deployment ''default'' ''nginx'' (Some \<lparr>Spec_Replicas = 0, Status_Replicas = 0\<rparr>),
            GetScaleCall Deployment ''default'' ''nginx'' (Some \<lparr>Spec_Replicas = 0, Status_Replicas = 0\<rparr>),
            UpdateScaleCall Deployment ''default'' ''nginx'' \<lparr>Spec_Replicas = 0, Status_Replicas = 0\<rparr>,
            GetScaleCall Deployment ''default'' ''nginx'' (Some \<lparr>Spec_Replicas = 0, Status_Replicas = 0\<rparr>)],
         out =
           [HasReplicas Deployment ''nginx'' ''default'' 0, NowZero Deployment ''nginx'' ''default'' 0,
            ScaledBack Deployment ''nginx'' ''default'' 0]\<rparr>)
   \<and> desired (nginx 0 [0]) = 0"
proof -
  let ?d = "\<lparr>Obj_Name = ''nginx'', Obj_Spec_Replicas = Some 3, Obj_Status_Replicas = 0\<rparr>"
  have h0: "(0::int) < 300" by simp
  have h1: "api_Get cluster_api Deployment ''default'' ''nginx'' (world (start (nginx 3 [0])))
     = ((Some ?d, None), nginx 3 [0])"
    by (simp add: cluster_api_def start_def nginx_def observed_def)
  have h2: "Obj_Status_Replicas ?d = 0" by simp
  have h3: "api_GetScale cluster_api Deployment ''default'' ''nginx'' (nginx 3 [0])
     = ((Some \<lparr>Spec_Replicas = 3, Status_Replicas = 0\<rparr>, None), nginx 3 [0])"
    by (simp add: cluster_api_def nginx_def observed_def)
  have h4: "api_UpdateScale cluster_api Deployment ''default'' ''nginx''
        (\<lparr>Spec_Replicas = 3, Status_Replicas = 0\<rparr>\<lparr>Spec_Replicas := 0\<rparr>) (nginx 3 [0])
     = ((Some \<lparr>Spec_Replicas = 0, Status_Replicas = 0\<rparr>, None), nginx 0 [0])"
    by (simp add: cluster_api_def nginx_def)
  have h5: "api_GetScale cluster_api Deployment ''default'' ''nginx'' (nginx 0 [0])
     = ((Some \<lparr>Spec_Replicas = 0, Status_Replicas = 0\<rparr>, None), nginx 0 [0])"
    by (simp add: cluster_api_def nginx_def observed_def)
  have h6: "Status_Replicas \<lparr>Spec_Replicas = 0, Status_Replicas = 0\<rparr> = 0" by simp
  have h7: "api_UpdateScale cluster_api Deployment ''default'' ''nginx''
        (\<lparr>Spec_Replicas = 0, Status_Replicas = 0\<rparr>\<lparr>Spec_Replicas := 0\<rparr>) (nginx 0 [0])
     = ((Some \<lparr>Spec_Replicas = 0, Status_Replicas = 0\<rparr>, None), nginx 0 [0])"
    by (simp add: cluster_api_def nginx_def)
  from ScaleObject_zero_observed[OF h0 h1 h2 h3 h4 h5 h6 h5 h7 h5 h6]
  show ?thesis using h1 by (simp add: ScaleDeployment_def start_def nginx_def)
qed

section \<open>Errors of the polls\<close>



section \<open>Kind resolution\<close>

text \<open>
  C2. Let the argument have no kind prefix (\<open>targetKind\<close> is "unknown"), the client be
  created and the namespace resolve to \<open>ns\<close>. Then the first request \<open>Run\<close> sends is the
  lookup of the deployment of that name. When that lookup returns no error, \<open>Run\<close> goes on
  as \<open>ScaleDeployment\<close> from the state the lookup left, and every request it sends goes to the
  deployment: no lookup of a statefulset is made, whether one of the same name exists or not.
  When \<open>Run\<close> sends any request to a statefulset, the lookup of the deployment returned an
  error that \<^verbatim>\<open>errors.IsNotFound\<close> accepts.
\<close>

theorem Run_deployment_first:
  assumes "targetKind opts = ''unknown''"
      and "api_NewForConfig a (restConfig opts) = None"
      and "Run_namespace opts = Some ns"
  shows "(\<exists>cs. calls (snd (Run a opts st)) = calls st @ GetCall Deployment ns (targetName opts) # cs)
       \<and> (\<forall>p w1. api_Get a Deployment ns (targetName opts) (world st) = ((p, None), w1) \<longrightarrow>
            Run a opts st =
              ScaleDeployment a ns (targetName opts) (maxWaitSeconds opts)
                (st\<lparr>world := w1, calls := calls st @ [GetCall Deployment ns (targetName opts)]\<rparr>)
          \<and> (\<forall>c \<in> set (drop (length (calls st)) (calls (snd (Run a opts st)))).
                call_kind c = Deployment))
       \<and> ((\<exists>c \<in> set (drop (length (calls st)) (calls (snd (Run a opts st)))).
               call_kind c = StatefulSet) \<longrightarrow>
            (\<exists>p e w1. api_Get a Deployment ns (targetName opts) (world st) = ((p, Some e), w1)
                     \<and> IsNotFound e))"
proof -
  let ?tn = "targetName opts" and ?mw = "maxWaitSeconds opts"
  obtain r st1 where g: "GetObject a Deployment ns ?tn st = (r, st1)" by fastforce
  have c1: "calls st1 = calls st @ [GetCall Deployment ns ?tn]"
    by (rule GetObject_D[OF g])
  have R: "Run a opts st =
      (case Run_resolve a ns ?tn ''unknown'' st of
         (Err e, s1) \<Rightarrow> (Err e, s1) | (Panic p, s1) \<Rightarrow> (Panic p, s1)
       | (Ok tk, s1) \<Rightarrow> Run_scale a ns ?tn tk ?mw s1)"
    by (simp add: Run_def assms)
  show ?thesis
  proof (cases r)
    case (Ok p)
    have run: "Run a opts st = ScaleDeployment a ns ?tn ?mw st1"
      by (simp add: R Run_resolve_def GetDeployment_def g Ok Run_scale_def)
    from ScaleObject_log[of a Deployment ns ?tn ?mw st1] obtain cs where
      cs: "calls (snd (ScaleObject a Deployment ns ?tn ?mw st1)) = calls st1 @ GetCall Deployment ns ?tn # cs"
          "\<forall>c \<in> set cs. call_kind c = Deployment" by blast
    have calls: "calls (snd (Run a opts st)) =
        calls st @ GetCall Deployment ns ?tn # GetCall Deployment ns ?tn # cs"
      by (simp add: run ScaleDeployment_def cs(1) c1)
    have st1: "st1 = st\<lparr>world := w1, calls := calls st @ [GetCall Deployment ns ?tn]\<rparr>"
      if "api_Get a Deployment ns ?tn (world st) = ((p', None), w1)" for p' w1
      using GetObject_not_Ok[OF g that] by simp
    show ?thesis using calls cs(2) run st1 by auto
  next
    case (Panic pn)
    have run: "Run a opts st = (Panic pn, st1)"
      by (simp add: R Run_resolve_def GetDeployment_def g Panic)
    have no: "api_Get a Deployment ns ?tn (world st) \<noteq> ((p, None), w1)" for p w1
      using GetObject_not_Ok[OF g, of p w1] Panic by auto
    show ?thesis using run c1 no by auto
  next
    case (Err e)
    note Err_r = Err
    from GetObject_Err[OF g[unfolded Err]] obtain p where
      api: "api_Get a Deployment ns ?tn (world st) = ((p, Some e), world st1)" by blast
    then have no: "api_Get a Deployment ns ?tn (world st) \<noteq> ((p', None), w1)" for p' w1
      by simp
    show ?thesis
    proof (cases "IsNotFound e")
      case False
      have run: "Run a opts st = (Err e, st1)"
        by (simp add: R Run_resolve_def GetDeployment_def g Err False)
      show ?thesis using run c1 no by auto
    next
      case True
      have "\<exists>cs. calls (snd (Run a opts st)) = calls st1 @ cs"
      proof -
        obtain r2 st2 where g2: "GetObject a StatefulSet ns ?tn st1 = (r2, st2)" by fastforce
        have c2: "calls st2 = calls st1 @ [GetCall StatefulSet ns ?tn]"
          by (rule GetObject_D[OF g2])
        show ?thesis
        proof (cases r2)
          case (Ok p2)
          have run: "Run a opts st = ScaleStatefulSet a ns ?tn ?mw st2"
            by (simp add: R Run_resolve_def GetDeployment_def GetStatefulSet_def g Err True g2 Ok
                          Run_scale_def)
          from ScaleObject_log[of a StatefulSet ns ?tn ?mw st2] obtain cs where
            "calls (snd (ScaleObject a StatefulSet ns ?tn ?mw st2)) = calls st2 @ GetCall StatefulSet ns ?tn # cs"
            by blast
          then show ?thesis by (simp add: run ScaleStatefulSet_def c2)
        next
          case (Err e2)
          then show ?thesis
            by (cases "IsNotFound e2")
               (simp_all add: R Run_resolve_def GetDeployment_def GetStatefulSet_def g Err_r True g2 c2)
        next
          case (Panic pn)
          then show ?thesis
            by (simp add: R Run_resolve_def GetDeployment_def GetStatefulSet_def g Err_r True g2 c2)
        qed
      qed
      then show ?thesis using c1 no api True by auto
    qed
  qed
qed

theorem Run_deployment_first_witness:
  "targetKind (opts_ok ''web'' ''unknown'' 300) = ''unknown''
   \<and> Run_namespace (opts_ok ''web'' ''unknown'' 300) = Some ''default''
   \<and> api_Get cluster_api Deployment ''default'' ''web'' (web 3 [3, 0, 3])
       = ((Some \<lparr>Obj_Name = ''web'', Obj_Spec_Replicas = Some 3, Obj_Status_Replicas = 3\<rparr>, None),
          web 3 [3, 0, 3])
   \<and> api_Get cluster_api StatefulSet ''default'' ''web'' (web 3 [3, 0, 3])
       = ((Some \<lparr>Obj_Name = ''web'', Obj_Spec_Replicas = Some 3, Obj_Status_Replicas = 3\<rparr>, None),
          web 3 [3, 0, 3])
   \<and> Run cluster_api (opts_ok ''web'' ''unknown'' 300) (start (web 3 [3, 0, 3]))
       = ScaleDeployment cluster_api ''default'' ''web'' 300
           \<lparr>world = web 3 [3, 0, 3], calls = [GetCall Deployment ''default'' ''web''], out = []\<rparr>
   \<and> filter (\<lambda>c. call_kind c \<noteq> Deployment)
         (calls (snd (Run cluster_api (opts_ok ''web'' ''unknown'' 300) (start (web 3 [3, 0, 3]))))) = []
   \<and> GetCall StatefulSet ''default'' ''db''
       \<in> set (calls (snd (Run cluster_api (opts_ok ''db'' ''unknown'' 300) (start (db 3 [3, 0, 3])))))
   \<and> api_Get cluster_api Deployment ''default'' ''db'' (db 3 [3, 0, 3])
       = ((None, Some notFound), db 3 [3, 0, 3])
   \<and> IsNotFound notFound"
proof -
  have k: "targetKind (opts_ok tn ''unknown'' 300) = ''unknown''" for tn
    by (simp add: opts_ok_def)
  have c: "api_NewForConfig cluster_api (restConfig (opts_ok tn ''unknown'' 300)) = None" for tn
    by (simp add: cluster_api_def)
  have nsp: "Run_namespace (opts_ok tn ''unknown'' 300) = Some ''default''" for tn
    by (simp add: opts_ok_def Run_namespace_def)
  have f: "targetName (opts_ok tn ''unknown'' 300) = tn"
          "maxWaitSeconds (opts_ok tn ''unknown'' 300) = 300" for tn
    by (simp_all add: opts_ok_def)
  have gd: "api_Get cluster_api Deployment ''default'' ''web'' (web 3 [3, 0, 3])
       = ((Some \<lparr>Obj_Name = ''web'', Obj_Spec_Replicas = Some 3, Obj_Status_Replicas = 3\<rparr>, None),
          web 3 [3, 0, 3])"
    by (simp add: cluster_api_def web_def observed_def)
  have gs: "api_Get cluster_api StatefulSet ''default'' ''web'' (web 3 [3, 0, 3])
       = ((Some \<lparr>Obj_Name = ''web'', Obj_Spec_Replicas = Some 3, Obj_Status_Replicas = 3\<rparr>, None),
          web 3 [3, 0, 3])"
    by (simp add: cluster_api_def web_def observed_def)
  have gdb: "api_Get cluster_api Deployment ''default'' ''db'' (db 3 [3, 0, 3])
       = ((None, Some notFound), db 3 [3, 0, 3])"
    by (simp add: cluster_api_def db_def)
  have nf: "IsNotFound notFound" by (simp add: notFound_def)
  have m: "GetCall StatefulSet ''default'' ''db''
       \<in> set (calls (snd (Run cluster_api (opts_ok ''db'' ''unknown'' 300) (start (db 3 [3, 0, 3])))))"
    by code_simp
  have s0: "calls (start x) = []" "world (start x) = x" "out (start x) = []" for x :: cluster
    by (simp_all add: start_def)
  note W = Run_deployment_first[OF k c nsp, of "''web''" "start (web 3 [3, 0, 3])"]
  note D = Run_deployment_first[OF k c nsp, of "''db''" "start (db 3 [3, 0, 3])"]
  have W2: "Run cluster_api (opts_ok ''web'' ''unknown'' 300) (start (web 3 [3, 0, 3]))
       = ScaleDeployment cluster_api ''default'' ''web'' 300
           \<lparr>world = web 3 [3, 0, 3], calls = [GetCall Deployment ''default'' ''web''], out = []\<rparr>
     \<and> filter (\<lambda>c. call_kind c \<noteq> Deployment)
         (calls (snd (Run cluster_api (opts_ok ''web'' ''unknown'' 300) (start (web 3 [3, 0, 3]))))) = []"
    using W[THEN conjunct2, THEN conjunct1, rule_format, of _ "web 3 [3, 0, 3]"] gd
    by (simp add: f s0 filter_empty_conv) (simp add: start_def)
  have D3: "\<exists>p e w1. api_Get cluster_api Deployment ''default'' ''db'' (db 3 [3, 0, 3]) = ((p, Some e), w1)
                     \<and> IsNotFound e"
  proof -
    have "\<exists>c \<in> set (calls (snd (Run cluster_api (opts_ok ''db'' ''unknown'' 300)
                                 (start (db 3 [3, 0, 3]))))). call_kind c = StatefulSet"
      using m by (rule bexI[rotated]) simp
    with D[THEN conjunct2, THEN conjunct2] show ?thesis by (simp add: f s0)
  qed
  note W2a = W2[THEN conjunct1] and W2b = W2[THEN conjunct2]
  show ?thesis using D3 by (intro conjI) (rule k nsp gd gs gdb nf m W2a W2b)+
qed

text \<open>
  C8. Let the argument have no kind prefix, the client be created and the namespace resolve to
  \<open>ns\<close>. When the lookup of the deployment and then the lookup of the statefulset both return
  a not-found error, \<open>Run\<close> returns the error "deployment/statefulset ... cannot be found",
  after printing it; the two lookups are the only requests it sent, so no scale was updated.
\<close>

theorem Run_neither_found:
  assumes "targetKind opts = ''unknown''"
      and "api_NewForConfig a (restConfig opts) = None"
      and "Run_namespace opts = Some ns"
      and "api_Get a Deployment ns (targetName opts) (world st) = ((p1, Some e1), w1)"
      and "IsNotFound e1"
      and "api_Get a StatefulSet ns (targetName opts) w1 = ((p2, Some e2), w2)"
      and "IsNotFound e2"
  shows "Run a opts st =
           (Err (ErrCannotBeFound (targetName opts)),
            \<lparr>world = w2,
             calls = calls st @ [GetCall Deployment ns (targetName opts),
                                 GetCall StatefulSet ns (targetName opts)],
             out = out st @ [ErrorLine (ErrCannotBeFound (targetName opts))]\<rparr>)
       \<and> update_targets (calls (snd (Run a opts st))) = update_targets (calls st)"
proof -
  define st1 where "st1 = st\<lparr>world := w1, calls := calls st @ [GetCall Deployment ns (targetName opts)]\<rparr>"
  define st2 where "st2 = st1\<lparr>world := w2, calls := calls st1 @ [GetCall StatefulSet ns (targetName opts)]\<rparr>"
  have g1: "GetDeployment a ns (targetName opts) st = (Err e1, st1)"
    unfolding GetDeployment_def st1_def by (rule GetObject_notfound[OF assms(4,5)])
  have g2: "GetStatefulSet a ns (targetName opts) st1 = (Err e2, st2)"
    unfolding GetStatefulSet_def st2_def
    by (rule GetObject_notfound[where p = p2]) (simp_all add: assms st1_def)
  have "Run a opts st = (Err (ErrCannotBeFound (targetName opts)),
                         printf (ErrorLine (ErrCannotBeFound (targetName opts))) st2)"
    by (simp add: Run_def assms(1,2,3,5,7) Run_resolve_def g1 g2)
  also have "printf (ErrorLine (ErrCannotBeFound (targetName opts))) st2 =
            \<lparr>world = w2,
             calls = calls st @ [GetCall Deployment ns (targetName opts),
                                 GetCall StatefulSet ns (targetName opts)],
             out = out st @ [ErrorLine (ErrCannotBeFound (targetName opts))]\<rparr>"
    by (simp add: st2_def st1_def printf_def)
  finally show ?thesis by simp
qed

theorem Run_neither_found_witness:
  "targetKind (opts_ok ''ghost'' ''unknown'' 300) = ''unknown''
   \<and> Run_namespace (opts_ok ''ghost'' ''unknown'' 300) = Some ''default''
   \<and> api_Get cluster_api Deployment ''default'' ''ghost'' (nginx 3 [3, 0, 3])
       = ((None, Some notFound), nginx 3 [3, 0, 3])
   \<and> api_Get cluster_api StatefulSet ''default'' ''ghost'' (nginx 3 [3, 0, 3])
       = ((None, Some notFound), nginx 3 [3, 0, 3])
   \<and> IsNotFound notFound
   \<and> Run cluster_api (opts_ok ''ghost'' ''unknown'' 300) (start (nginx 3 [3, 0, 3])) =
       (Err (ErrCannotBeFound ''ghost''),
        \<lparr>world = nginx 3 [3, 0, 3],
         calls = [GetCall Deployment ''default'' ''ghost'', GetCall StatefulSet ''default'' ''ghost''],
         out = [ErrorLine (ErrCannotBeFound ''ghost'')]\<rparr>)"
proof -
  have h1: "targetKind (opts_ok ''ghost'' ''unknown'' 300) = ''unknown''"
    by (simp add: opts_ok_def)
  have h2: "api_NewForConfig cluster_api (restConfig (opts_ok ''ghost'' ''unknown'' 300)) = None"
    by (simp add: cluster_api_def)
  have h3: "Run_namespace (opts_ok ''ghost'' ''unknown'' 300) = Some ''default''"
    by (simp add: opts_ok_def Run_namespace_def)
  have tn: "targetName (opts_ok ''ghost'' ''unknown'' 300) = ''ghost''"
    by (simp add: opts_ok_def)
  have h4: "api_Get cluster_api Deployment ''default'' (targetName (opts_ok ''ghost'' ''unknown'' 300))
              (world (start (nginx 3 [3, 0, 3]))) = ((None, Some notFound), nginx 3 [3, 0, 3])"
    by (simp add: tn cluster_api_def start_def nginx_def)
  have h5: "IsNotFound notFound" by (simp add: notFound_def)
  have h6: "api_Get cluster_api StatefulSet ''default'' (targetName (opts_ok ''ghost'' ''unknown'' 300))
              (nginx 3 [3, 0, 3]) = ((None, Some notFound), nginx 3 [3, 0, 3])"
    by (simp add: tn cluster_api_def nginx_def)
  from Run_neither_found[OF h1 h2 h3 h4 h5 h6 h5]
  show ?thesis using h1 h3 h4 h5 h6 by (simp add: tn start_def)
qed

end
